theory Spec2Isabelle
  imports Main "HOL-Library.AList" "HOL-Library.Word"
begin

section \<open>Values, errors and the world the service runs in\<close>

text \<open>
  The token data the service handles is decoded JSON. A Python dict with string keys is an
  association list kept in insertion order; \<open>AList.update\<close> is Python's \<open>d[k] = v\<close>
  (the value is replaced in place when the key is there, appended otherwise). Python's
  \<open>None\<close> is \<open>JNull\<close>. JSON numbers with a fraction or an exponent (Python floats) are not
  modelled. Strings are lists of 8-bit characters, so the Latin-1 decoding of header and
  query bytes is the identity.
\<close>

datatype json =
    JNull
  | JBool bool
  | JInt int
  | JStr string
  | JArr "json list"
  | JObj "(string \<times> json) list"

type_synonym jdict = "(string \<times> json) list"

datatype error = TypeError | KeyError | AttributeError | OSError | RequestError

text \<open>\<open>d.get(k)\<close>: the value, \<open>None\<close> when the key is absent.\<close>

definition dict_get :: "jdict \<Rightarrow> string \<Rightarrow> json" where
  "dict_get d k = (case map_of d k of None \<Rightarrow> JNull | Some v \<Rightarrow> v)"

text \<open>Python's truth value of an object (\<open>not x\<close> is its negation).\<close>

fun truthy :: "json \<Rightarrow> bool" where
  "truthy JNull = False"
| "truthy (JBool b) = b"
| "truthy (JInt i) = (i \<noteq> 0)"
| "truthy (JStr s) = (s \<noteq> [])"
| "truthy (JArr xs) = (xs \<noteq> [])"
| "truthy (JObj kvs) = (kvs \<noteq> [])"

text \<open>
  The operand of integer arithmetic: an int, or a bool (a subclass of int in Python).
  Any other operand makes \<open>+\<close> and \<open>-\<close> with an int raise TypeError.
\<close>

fun as_int :: "json \<Rightarrow> int option" where
  "as_int (JInt i) = Some i"
| "as_int (JBool b) = Some (if b then 1 else 0)"
| "as_int _ = None"

text \<open>
  What a file of the token folder holds: a JSON document, or something \<open>open\<close> or
  \<open>json.load\<close> raises on (other than the file not existing).
\<close>

datatype content = Unreadable | Json json

text \<open>
  The state the functions read and change: the files by path, whether the folder can be
  created and which paths can be opened for writing, the two module-level dictionaries,
  the provider calls made so far (url and form data of each \<open>requests.post\<close>), and the
  printed lines. Where a printed line ends in the text of a caught exception, the model
  prints the line up to that text.
\<close>

record world =
  files :: "string \<rightharpoonup> content"
  makedirs_ok :: bool
  writable :: "string \<Rightarrow> bool"
  temp_user_oauth_token :: "string \<rightharpoonup> string"
  temp_google_oauth_states :: "string \<rightharpoonup> string"
  posts :: "(string \<times> jdict) list"
  stdout :: "string list"

definition print :: "string \<Rightarrow> world \<Rightarrow> world" where
  "print line w = w\<lparr>stdout := stdout w @ [line]\<rparr>"

section \<open>disk.py: the credential store\<close>

definition FOLDER :: string where
  "FOLDER = ''tokens''"

text \<open>\<open>os.path.join(a, b)\<close> on POSIX: an absolute \<open>b\<close> discards \<open>a\<close>.\<close>

definition path_join :: "string \<Rightarrow> string \<Rightarrow> string" where
  "path_join a b =
     (if b \<noteq> [] \<and> hd b = CHR ''/'' then b
      else if a = [] \<or> last a = CHR ''/'' then a @ b
      else a @ ''/'' @ b)"

definition filepath :: "string \<Rightarrow> string" where
  "filepath user_id = path_join FOLDER (user_id @ ''.json'')"

text \<open>\<open>with open(filepath, "w") as f: json.dump(token_data, f, indent=4)\<close>\<close>

definition write_json :: "world \<Rightarrow> string \<Rightarrow> jdict \<Rightarrow> (error + unit) \<times> world" where
  "write_json w p d =
     (if writable w p then (Inr (), w\<lparr>files := (files w)(p \<mapsto> Json (JObj d))\<rparr>)
      else (Inl OSError, w))"

text \<open>
  \<open>save_user_google_tokens(user_id, token_data)\<close>, with \<open>now = int(time.time())\<close>.
  The callers pass the provider's decoded response, which is a dict only when the provider
  sent a JSON object: on any other value the membership test, the subscript or the item
  assignment raises TypeError before the file is opened.
\<close>

definition save_user_google_tokens ::
  "int \<Rightarrow> world \<Rightarrow> string \<Rightarrow> json \<Rightarrow> (error + unit) \<times> world" where
  "save_user_google_tokens now w user_id token_data =
     (if \<not> makedirs_ok w then (Inl OSError, w)
      else
        (case token_data of
           JObj d \<Rightarrow>
             (case map_of d ''expires_in'' of
                Some expires_in \<Rightarrow>
                  (case as_int expires_in of
                     None \<Rightarrow> (Inl TypeError, w)
                   | Some n \<Rightarrow>
                       write_json w (filepath user_id)
                         (AList.update ''expires_at'' (JInt (now + n)) d))
              | None \<Rightarrow>
                  write_json
                    (print (''Warning: No 'expires_in' info for user '' @ user_id
                            @ ''. 'expires_at' set to 0.'') w)
                    (filepath user_id)
                    (AList.update ''expires_at'' (JInt 0) d))
         | _ \<Rightarrow> (Inl TypeError, w)))"

text \<open>
  The load step of \<open>get_user_google_credentials\<close>: the \<open>try\<close> block around \<open>open\<close> and
  \<open>json.load\<close>. \<open>None\<close> is the early \<open>return None\<close> of both \<open>except\<close> clauses.
\<close>

definition load_token_data :: "world \<Rightarrow> string \<Rightarrow> json option \<times> world" where
  "load_token_data w user_id =
     (case files w (filepath user_id) of
        None \<Rightarrow> (None, w)
      | Some Unreadable \<Rightarrow>
          (None, print (''An unexpected error occurred for user '' @ user_id @ '': '') w)
      | Some (Json j) \<Rightarrow> (Some j, w))"

text \<open>
  \<open>get_user_google_credentials(user_id)\<close>, with \<open>now = current_time\<close>. \<open>Inr None\<close> is
  \<open>return None\<close>; \<open>.get\<close> on a document that is not an object raises AttributeError, and
  \<open>expires_at - 60\<close> on a value that is not a number raises TypeError, both uncaught.
\<close>

definition get_user_google_credentials ::
  "int \<Rightarrow> world \<Rightarrow> string \<Rightarrow> (error + (bool \<times> json) option) \<times> world" where
  "get_user_google_credentials now w user_id =
     (case load_token_data w user_id of
        (None, w1) \<Rightarrow> (Inr None, w1)
      | (Some (JObj token_data), w1) \<Rightarrow>
          (let access_token = dict_get token_data ''access_token'';
               refresh_token = dict_get token_data ''refresh_token'';
               expires_at = dict_get token_data ''expires_at''
           in if \<not> truthy access_token \<or> expires_at = JNull
              then (Inr None, print (''Missing essential token data for user '' @ user_id) w1)
              else
                (case as_int expires_at of
                   None \<Rightarrow> (Inl TypeError, w1)
                 | Some e \<Rightarrow>
                     if now \<ge> e - 60 then (Inr (Some (False, refresh_token)), w1)
                     else (Inr (Some (True, access_token)), w1)))
      | (Some _, w1) \<Rightarrow> (Inl AttributeError, w1))"

section \<open>google.py: the provider client and the token lifecycle\<close>

text \<open>
  The module-level constants read from the environment (\<open>os.environ.get\<close> gives \<open>None\<close>
  for a variable that is not set).
\<close>

record config =
  BEARER_TOKEN :: "string option"
  SERVER_DOMAIN :: "string option"
  GOOGLE_CLIENT_ID :: "string option"
  GOOGLE_CLIENT_SECRET :: "string option"

text \<open>How an f-string renders an optional string.\<close>

definition format_opt :: "string option \<Rightarrow> string" where
  "format_opt v = (case v of None \<Rightarrow> ''None'' | Some s \<Rightarrow> s)"

definition opt_json :: "string option \<Rightarrow> json" where
  "opt_json v = (case v of None \<Rightarrow> JNull | Some s \<Rightarrow> JStr s)"

definition GOOGLE_REDIRECT_URI :: "config \<Rightarrow> string" where
  "GOOGLE_REDIRECT_URI cfg = format_opt (SERVER_DOMAIN cfg) @ ''/auth/google/callback''"

definition GOOGLE_SCOPES :: "string list" where
  "GOOGLE_SCOPES =
     [''https://www.googleapis.com/auth/calendar.readonly'',
      ''https://www.googleapis.com/auth/calendar.events'']"

text \<open>
  The library code the module calls: \<open>provider n url data\<close> is the outcome of the
  \<open>n\<close>-th \<open>requests.post(url, data=data)\<close> followed by \<open>raise_for_status()\<close> and
  \<open>json()\<close> (\<open>Inl\<close> when any of the three raises); \<open>urlencode\<close> is
  \<open>urllib.parse.urlencode\<close>.
\<close>

record env =
  provider :: "nat \<Rightarrow> string \<Rightarrow> jdict \<Rightarrow> error + json"
  urlencode :: "jdict \<Rightarrow> string"

definition requests_post :: "env \<Rightarrow> world \<Rightarrow> string \<Rightarrow> jdict \<Rightarrow> (error + json) \<times> world" where
  "requests_post ev w url data =
     (provider ev (length (posts w)) url data, w\<lparr>posts := posts w @ [(url, data)]\<rparr>)"

definition token_url :: string where
  "token_url = ''https://oauth2.googleapis.com/token''"

definition refresh_payload :: "config \<Rightarrow> json \<Rightarrow> jdict" where
  "refresh_payload cfg refresh_token =
     [(''client_id'', opt_json (GOOGLE_CLIENT_ID cfg)),
      (''client_secret'', opt_json (GOOGLE_CLIENT_SECRET cfg)),
      (''refresh_token'', refresh_token),
      (''grant_type'', JStr ''refresh_token'')]"

definition refresh_error_line :: "string \<Rightarrow> string" where
  "refresh_error_line userid =
     ''An unexpected error occurred during token refresh for user '' @ userid @ '': ''"

text \<open>
  \<open>refresh_google_access_token(userid, refresh_token)\<close>, with \<open>now\<close> the clock reading of
  the save. Every exception of the \<open>try\<close> block ends in \<open>return None\<close>: a failed request,
  the item assignment on a response that is not an object (TypeError), a failing save,
  and the missing \<open>access_token\<close> key (KeyError, raised after the save).
\<close>

definition refresh_google_access_token ::
  "env \<Rightarrow> config \<Rightarrow> int \<Rightarrow> world \<Rightarrow> string \<Rightarrow> json \<Rightarrow> json \<times> world" where
  "refresh_google_access_token ev cfg now w userid refresh_token =
     (case requests_post ev w token_url (refresh_payload cfg refresh_token) of
        (Inl e, w1) \<Rightarrow> (JNull, print (refresh_error_line userid) w1)
      | (Inr (JObj d), w1) \<Rightarrow>
          (let new_token_data = AList.update ''refresh_token'' refresh_token d
           in case save_user_google_tokens now w1 userid (JObj new_token_data) of
                (Inl e, w2) \<Rightarrow> (JNull, print (refresh_error_line userid) w2)
              | (Inr u, w2) \<Rightarrow>
                  (case map_of new_token_data ''access_token'' of
                     None \<Rightarrow> (JNull, print (refresh_error_line userid) w2)
                   | Some access_token \<Rightarrow> (access_token, w2)))
      | (Inr _, w1) \<Rightarrow> (JNull, print (refresh_error_line userid) w1))"

definition generate_google_auth_url :: "env \<Rightarrow> config \<Rightarrow> string \<Rightarrow> string" where
  "generate_google_auth_url ev cfg state =
     ''https://accounts.google.com/o/oauth2/v2/auth?'' @
     urlencode ev
       [(''client_id'', opt_json (GOOGLE_CLIENT_ID cfg)),
        (''redirect_uri'', JStr (GOOGLE_REDIRECT_URI cfg)),
        (''response_type'', JStr ''code''),
        (''scope'', JStr (case GOOGLE_SCOPES of [] \<Rightarrow> [] | x # xs \<Rightarrow> foldl (\<lambda>a b. a @ '' '' @ b) x xs)),
        (''access_type'', JStr ''offline''),
        (''prompt'', JStr ''consent''),
        (''state'', JStr state)]"

definition exchange_payload :: "config \<Rightarrow> string \<Rightarrow> jdict" where
  "exchange_payload cfg code =
     [(''code'', JStr code),
      (''client_id'', opt_json (GOOGLE_CLIENT_ID cfg)),
      (''client_secret'', opt_json (GOOGLE_CLIENT_SECRET cfg)),
      (''redirect_uri'', JStr (GOOGLE_REDIRECT_URI cfg)),
      (''grant_type'', JStr ''authorization_code'')]"

definition exchange_code_for_tokens ::
  "env \<Rightarrow> config \<Rightarrow> world \<Rightarrow> string \<Rightarrow> (error + json) \<times> world" where
  "exchange_code_for_tokens ev cfg w code =
     requests_post ev w token_url (exchange_payload cfg code)"

text \<open>\<open>bytes.hex()\<close>: two lowercase hexadecimal digits for each byte.\<close>

definition hex_digit :: "nat \<Rightarrow> char" where
  "hex_digit n = ''0123456789abcdef'' ! (n mod 16)"

definition hex :: "8 word list \<Rightarrow> string" where
  "hex bs = concat (map (\<lambda>b. [hex_digit (unat b div 16), hex_digit (unat b mod 16)]) bs)"

datatype response = PlainTextResponse string nat | RedirectResponse string

text \<open>\<open>start_google_auth(user_id)\<close>, with \<open>rnd\<close> the bytes \<open>os.urandom(16)\<close> returns.\<close>

definition start_google_auth ::
  "env \<Rightarrow> config \<Rightarrow> world \<Rightarrow> string \<Rightarrow> 8 word list \<Rightarrow> response \<times> world" where
  "start_google_auth ev cfg w user_id rnd =
     (let state = hex rnd;
          w1 = w\<lparr>temp_google_oauth_states := (temp_google_oauth_states w)(state \<mapsto> user_id)\<rparr>;
          auth_url = generate_google_auth_url ev cfg state
      in (RedirectResponse auth_url, w1))"

text \<open>
  \<open>handle_google_callback(request)\<close>: the request is its query parameters, as
  \<open>request.query_params.get\<close> reads them (\<open>None\<close> when absent); \<open>now\<close> is the clock
  reading of the save. \<open>present v\<close> is the truth value of an optional string.
  \<open>pop(state, None)\<close> removes the state whether or not the exchange then succeeds.
\<close>

definition present :: "string option \<Rightarrow> bool" where
  "present v = (case v of None \<Rightarrow> False | Some s \<Rightarrow> s \<noteq> [])"

definition exchange_error_line :: string where
  "exchange_error_line = ''An unexpected error occurred during token exchange: ''"

definition invalid_parameters :: response where
  "invalid_parameters = PlainTextResponse ''Invalid OAuth callback parameters'' 400"

definition handle_google_callback ::
  "env \<Rightarrow> config \<Rightarrow> int \<Rightarrow> world \<Rightarrow> (string \<rightharpoonup> string) \<Rightarrow> response \<times> world" where
  "handle_google_callback ev cfg now w query_params =
     (let code = query_params ''code'';
          state = query_params ''state'';
          error = query_params ''error''
      in if present error
         then (PlainTextResponse (''Google OAuth Error: '' @ format_opt error) 400,
               print (''Google OAuth error: '' @ format_opt error) w)
         else if \<not> present code \<or> \<not> present state
         then (invalid_parameters, w)
         else
           (case (code, state) of
              (Some c, Some s) \<Rightarrow>
                (let user_id = temp_google_oauth_states w s;
                     w1 = w\<lparr>temp_google_oauth_states := (temp_google_oauth_states w)(s := None)\<rparr>
                 in case user_id of
                      None \<Rightarrow>
                        (PlainTextResponse ''Invalid or expired state parameter'' 400,
                         print (''Invalid or missing state parameter: '' @ s) w1)
                    | Some uid \<Rightarrow>
                        (case exchange_code_for_tokens ev cfg w1 c of
                           (Inl e, w2) \<Rightarrow>
                             (PlainTextResponse ''An internal error occurred.'' 500,
                              print exchange_error_line w2)
                         | (Inr token_data, w2) \<Rightarrow>
                             (case save_user_google_tokens now w2 uid token_data of
                                (Inl e, w3) \<Rightarrow>
                                  (PlainTextResponse ''An internal error occurred.'' 500,
                                   print exchange_error_line w3)
                              | (Inr u, w3) \<Rightarrow>
                                  (PlainTextResponse ''You can close the tab.'' 200, w3))))
            | _ \<Rightarrow> (invalid_parameters, w)))"

text \<open>
  \<open>get_user_token(user_id)\<close>: \<open>now\<close> is the clock reading of the freshness check,
  \<open>now'\<close> the one of the save after a refresh. The result \<open>JNull\<close> is \<open>None\<close>.
\<close>

definition get_user_token ::
  "env \<Rightarrow> config \<Rightarrow> int \<Rightarrow> int \<Rightarrow> world \<Rightarrow> string \<Rightarrow> (error + json) \<times> world" where
  "get_user_token ev cfg now now' w user_id =
     (case get_user_google_credentials now w user_id of
        (Inl e, w1) \<Rightarrow> (Inl e, w1)
      | (Inr None, w1) \<Rightarrow> (Inr JNull, w1)
      | (Inr (Some (is_valid, token_or_refresh_token)), w1) \<Rightarrow>
          if \<not> is_valid
          then (case refresh_google_access_token ev cfg now' w1 user_id token_or_refresh_token of
                  (access_token, w2) \<Rightarrow> (Inr access_token, w2))
          else (Inr token_or_refresh_token, w1))"

section \<open>authenticate.py: the tickets and the request gate\<close>

text \<open>
  \<open>gen_user_auth_token(user_id)\<close>, with \<open>rnd\<close> the bytes \<open>os.urandom(32)\<close> returns, and
  \<open>match_user_auth_token(user_id, token)\<close>.
\<close>

definition gen_user_auth_token :: "world \<Rightarrow> string \<Rightarrow> 8 word list \<Rightarrow> string \<times> world" where
  "gen_user_auth_token w user_id rnd =
     (let random_token = hex rnd
      in (random_token,
          w\<lparr>temp_user_oauth_token := (temp_user_oauth_token w)(user_id \<mapsto> random_token)\<rparr>))"

definition match_user_auth_token :: "world \<Rightarrow> string \<Rightarrow> string \<Rightarrow> bool" where
  "match_user_auth_token w user_id token =
     (case temp_user_oauth_token w user_id of
        Some stored \<Rightarrow> stored = token
      | None \<Rightarrow> False)"

text \<open>
  The ASGI scope, with the defaults of \<open>scope.get\<close> for an absent key: the path is
  \<open>"/"\<close>, the headers are the empty list, the query string is empty.
\<close>

record scope =
  scope_type :: string
  path :: "string option"
  headers :: "(string \<times> string) list"
  query_string :: string

text \<open>What the middleware does with a request: hand it to the wrapped app, or answer it.\<close>

datatype gate_result = CallApp scope | Respond response

definition startswith :: "string \<Rightarrow> string \<Rightarrow> bool" where
  "startswith s p = (take (length p) s = p)"

text \<open>
  \<open>str.lower()\<close> and \<open>str.isspace()\<close> on Latin-1 text: the letters A-Z and the
  accented capitals 192-222 (without the multiplication sign 215) lie 32 below their
  lowercase; whitespace is 9-13, 28-32, 133 and 160.
\<close>

definition lower_char :: "char \<Rightarrow> char" where
  "lower_char c =
     (let n = of_char c :: nat
      in if (65 \<le> n \<and> n \<le> 90) \<or> (192 \<le> n \<and> n \<le> 222 \<and> n \<noteq> 215)
         then char_of (n + 32) else c)"

definition lower :: "string \<Rightarrow> string" where
  "lower s = map lower_char s"

definition isspace :: "char \<Rightarrow> bool" where
  "isspace c =
     (let n = of_char c :: nat
      in (9 \<le> n \<and> n \<le> 13) \<or> (28 \<le> n \<and> n \<le> 32) \<or> n = 133 \<or> n = 160)"

definition strip :: "string \<Rightarrow> string" where
  "strip s = rev (dropWhile isspace (rev (dropWhile isspace s)))"

text \<open>
  \<open>s.split(maxsplit=1)\<close>: the first word and, when something other than whitespace
  follows it, the rest from its first non-blank character on.
\<close>

definition split_maxsplit1 :: "string \<Rightarrow> string list" where
  "split_maxsplit1 s =
     (let s1 = dropWhile isspace s
      in if s1 = [] then []
         else
           (let first = takeWhile (\<lambda>c. \<not> isspace c) s1;
                rest = dropWhile isspace (dropWhile (\<lambda>c. \<not> isspace c) s1)
            in if rest = [] then [first] else [first, rest]))"

text \<open>\<open>s.split(c)\<close> for a one-character separator.\<close>

fun split_char :: "char \<Rightarrow> string \<Rightarrow> string list" where
  "split_char c [] = [[]]"
| "split_char c (x # xs) =
     (if x = c then [] # split_char c xs
      else (case split_char c xs of
              [] \<Rightarrow> [[x]]
            | y # ys \<Rightarrow> (x # y) # ys))"

text \<open>The header dictionary: names decoded and lowercased, a later header overwriting.\<close>

definition header_dict :: "(string \<times> string) list \<Rightarrow> (string \<rightharpoonup> string)" where
  "header_dict hs = foldl (\<lambda>m header. m(lower (fst header) \<mapsto> snd header)) Map.empty hs"

text \<open>The query parameters as the middleware's own loop over \<open>split("&")\<close> builds them.\<close>

definition add_query_item :: "(string \<rightharpoonup> string) \<Rightarrow> string \<Rightarrow> (string \<rightharpoonup> string)" where
  "add_query_item query_params item =
     (if CHR ''='' \<in> set item
      then query_params(takeWhile (\<lambda>c. c \<noteq> CHR ''='') item
                          \<mapsto> tl (dropWhile (\<lambda>c. c \<noteq> CHR ''='') item))
      else if item \<noteq> [] then query_params(item \<mapsto> [])
      else query_params)"

definition parse_query :: "string \<Rightarrow> (string \<rightharpoonup> string)" where
  "parse_query qs =
     (if qs \<noteq> [] then foldl add_query_item Map.empty (split_char CHR ''&'' qs)
      else Map.empty)"

text \<open>The bearer token of an Authorization header value, \<open>None\<close> when it has none.\<close>

definition parse_bearer :: "string \<Rightarrow> string option" where
  "parse_bearer authorization_header =
     (let parts = split_maxsplit1 (strip authorization_header)
      in if length parts = 2 \<and> lower (parts ! 0) = ''bearer'' then Some (parts ! 1)
         else None)"

definition unauthorized :: response where
  "unauthorized = PlainTextResponse ''Unauthorized'' 401"

text \<open>
  \<open>AuthenticationMiddleware.__call__(scope, receive, send)\<close>. The module constant
  \<open>BEARER_TOKEN\<close> comes with the configuration, the tickets with the world.
\<close>

definition AuthenticationMiddleware_call :: "config \<Rightarrow> world \<Rightarrow> scope \<Rightarrow> gate_result" where
  "AuthenticationMiddleware_call cfg w sc =
     (if scope_type sc = ''http''
      then
        (let p = (case path sc of None \<Rightarrow> ''/'' | Some p \<Rightarrow> p)
         in if startswith p ''/auth/google/callback'' then CallApp sc
            else
              (let hd_dict = header_dict (headers sc)
               in if startswith p ''/auth''
                  then
                    (let query_params = parse_query (query_string sc);
                         user_id = (case query_params ''userid'' of None \<Rightarrow> [] | Some u \<Rightarrow> u);
                         target_token = temp_user_oauth_token w user_id;
                         bearer = query_params ''token''
                     in if target_token = None \<or> bearer \<noteq> target_token
                        then Respond unauthorized
                        else CallApp sc)
                  else
                    (case hd_dict ''authorization'' of
                       None \<Rightarrow> Respond (PlainTextResponse ''Missing Authorization Header'' 401)
                     | Some authorization_header \<Rightarrow>
                         if authorization_header = []
                         then Respond (PlainTextResponse ''Missing Authorization Header'' 401)
                         else
                           (let target_token = BEARER_TOKEN cfg;
                                bearer = parse_bearer authorization_header
                            in if target_token = None \<or> bearer \<noteq> target_token
                               then Respond unauthorized
                               else CallApp sc))))
      else CallApp sc)"

section \<open>main.py: reading the configuration, the authorization route\<close>

text \<open>
  The module-level assignments that run when the service starts: each constant is
  \<open>os.environ.get\<close> of its variable. Nothing here raises, so the result is always
  \<open>Inr\<close>; the \<open>__main__\<close> block then builds the middleware and runs the server without
  reading the constants.
\<close>

definition startup :: "(string \<rightharpoonup> string) \<Rightarrow> error + config" where
  "startup environ =
     Inr \<lparr>BEARER_TOKEN = environ ''AUTH_TOKEN'',
          SERVER_DOMAIN = environ ''SERVER_DOMAIN'',
          GOOGLE_CLIENT_ID = environ ''GOOGLE_CLIENT_ID'',
          GOOGLE_CLIENT_SECRET = environ ''GOOGLE_CLIENT_SECRET''\<rparr>"

text \<open>
  The \<open>/auth\<close> route behind the gate: \<open>auth(request)\<close>, with the query parameters as
  \<open>request.query_params.get\<close> reads them and \<open>rnd\<close> the bytes \<open>os.urandom(16)\<close> returns
  in \<open>start_google_auth\<close>.
\<close>

definition auth ::
  "env \<Rightarrow> config \<Rightarrow> world \<Rightarrow> (string \<rightharpoonup> string) \<Rightarrow> 8 word list \<Rightarrow> response \<times> world" where
  "auth ev cfg w query_params rnd =
     (case query_params ''userid'' of
        None \<Rightarrow> (PlainTextResponse ''Unauthorized'' 401, w)
      | Some user_id \<Rightarrow>
          (case query_params ''token'' of
             None \<Rightarrow> (PlainTextResponse ''Unauthorized'' 401, w)
           | Some token \<Rightarrow>
               if \<not> match_user_auth_token w user_id token
               then (PlainTextResponse ''Unauthorized'' 401, w)
               else start_google_auth ev cfg w user_id rnd))"

section \<open>The service as a sequence of calls\<close>

text \<open>
  The functions above are called in any order while the process runs. An event is one
  call with what it reads from outside (the random bytes, the clock readings, the query
  parameters); \<open>run\<close> applies a list of events to a world, oldest first.
\<close>

datatype event =
    Issue string "8 word list"
  | StartAuth string "8 word list"
  | Callback "string \<Rightarrow> string option" int
  | GetToken string int int

fun step :: "env \<Rightarrow> config \<Rightarrow> world \<Rightarrow> event \<Rightarrow> world" where
  "step ev cfg w (Issue user_id rnd) = snd (gen_user_auth_token w user_id rnd)"
| "step ev cfg w (StartAuth user_id rnd) = snd (start_google_auth ev cfg w user_id rnd)"
| "step ev cfg w (Callback query_params now) = snd (handle_google_callback ev cfg now w query_params)"
| "step ev cfg w (GetToken user_id now now') = snd (get_user_token ev cfg now now' w user_id)"

definition run :: "env \<Rightarrow> config \<Rightarrow> world \<Rightarrow> event list \<Rightarrow> world" where
  "run ev cfg w evs = foldl (step ev cfg) w evs"

text \<open>
  The secret most recently issued to a user in a list of events (oldest first), \<open>None\<close>
  when none was: the words of the ticket manager's contract, to compare with what
  \<open>match_user_auth_token\<close> accepts.
\<close>

fun issued_by :: "event \<Rightarrow> string \<Rightarrow> string option" where
  "issued_by (Issue user_id rnd) u = (if user_id = u then Some (hex rnd) else None)"
| "issued_by _ u = None"

fun last_issued :: "event list \<Rightarrow> string \<Rightarrow> string option" where
  "last_issued [] u = None"
| "last_issued (e # es) u =
     (case last_issued es u of
        Some s \<Rightarrow> Some s
      | None \<Rightarrow> issued_by e u)"

text \<open>Whether an event is a consent redirect that registers the state \<open>s\<close>.\<close>

fun registers :: "string \<Rightarrow> event \<Rightarrow> bool" where
  "registers s (StartAuth user_id rnd) = (hex rnd = s)"
| "registers s _ = False"

section \<open>Concrete worlds for the examples\<close>

text \<open>
  The world when the process starts with an empty, writable token folder; a provider that
  answers every request with a one-hour token; a configuration with all four values set.
\<close>

definition boot :: world where
  "boot = \<lparr>files = Map.empty, makedirs_ok = True, writable = (\<lambda>p. True),
           temp_user_oauth_token = Map.empty, temp_google_oauth_states = Map.empty,
           posts = [], stdout = []\<rparr>"

definition full_response :: jdict where
  "full_response = [(''access_token'', JStr ''a''), (''refresh_token'', JStr ''r''), (''expires_in'', JInt 3599)]"

definition bare_response :: jdict where
  "bare_response = [(''access_token'', JStr ''a'')]"

definition fresh_response :: jdict where
  "fresh_response = [(''access_token'', JStr ''fresh''), (''expires_in'', JInt 3599)]"

definition demo_env :: env where
  "demo_env =
     \<lparr>provider = (\<lambda>n url data. Inr (JObj fresh_response)),
      urlencode = (\<lambda>params. [])\<rparr>"

definition down_env :: env where
  "down_env = \<lparr>provider = (\<lambda>n url data. Inl RequestError), urlencode = (\<lambda>params. [])\<rparr>"

definition demo_cfg :: config where
  "demo_cfg =
     \<lparr>BEARER_TOKEN = Some ''s3cret'', SERVER_DOMAIN = Some ''http://localhost:30000'',
      GOOGLE_CLIENT_ID = Some ''id'', GOOGLE_CLIENT_SECRET = Some ''secret''\<rparr>"

definition stored_record :: jdict where
  "stored_record =
     [(''access_token'', JStr ''tok''), (''refresh_token'', JStr ''ref''),
      (''expires_at'', JInt 4600)]"

definition with_record :: world where
  "with_record = boot\<lparr>files := [''tokens/u1.json'' \<mapsto> Json (JObj stored_record)]\<rparr>"

text \<open>The same record with the sentinel expiry 0.\<close>

definition sentinel_record :: jdict where
  "sentinel_record =
     [(''access_token'', JStr ''tok''), (''refresh_token'', JStr ''ref''),
      (''expires_at'', JInt 0)]"

definition with_sentinel :: world where
  "with_sentinel = boot\<lparr>files := [''tokens/u1.json'' \<mapsto> Json (JObj sentinel_record)]\<rparr>"

text \<open>A world in which the consent redirect of user u1 is pending under the state abcd.\<close>

definition pending :: world where
  "pending = boot\<lparr>temp_google_oauth_states := [''abcd'' \<mapsto> ''u1'']\<rparr>"

text \<open>
  Requests as the gate sees them: one to a tool route with the given headers, one to
  \<open>/auth\<close> and one to the callback with the given query string, and one to the path
  \<open>/authorize\<close>, which is no route of the service. A world with a ticket for user u1,
  and one with a ticket for the empty user id.
\<close>

definition protected_request :: "(string \<times> string) list \<Rightarrow> scope" where
  "protected_request hs = \<lparr>scope_type = ''http'', path = Some ''/mcp'', headers = hs, query_string = []\<rparr>"

definition auth_request :: "string \<Rightarrow> scope" where
  "auth_request qs = \<lparr>scope_type = ''http'', path = Some ''/auth'', headers = [], query_string = qs\<rparr>"

definition callback_request :: "string \<Rightarrow> scope" where
  "callback_request qs =
     \<lparr>scope_type = ''http'', path = Some ''/auth/google/callback'', headers = [], query_string = qs\<rparr>"


definition u1_ticket :: world where
  "u1_ticket = snd (gen_user_auth_token boot ''u1'' [0xab])"

definition empty_user_ticket :: world where
  "empty_user_ticket = snd (gen_user_auth_token boot [] [0xab])"

text \<open>The configuration read from an empty environment, and one with only the base URL set.\<close>

definition unset :: config where
  "unset = \<lparr>BEARER_TOKEN = None, SERVER_DOMAIN = None, GOOGLE_CLIENT_ID = None,
             GOOGLE_CLIENT_SECRET = None\<rparr>"

definition domain_only :: config where
  "domain_only = \<lparr>BEARER_TOKEN = None, SERVER_DOMAIN = Some ''http://localhost:30000'',
                   GOOGLE_CLIENT_ID = None, GOOGLE_CLIENT_SECRET = None\<rparr>"

section \<open>Frame and evaluation lemmas\<close>

lemma print_fields [simp]:
  "files (print l w) = files w" "posts (print l w) = posts w"
  "temp_user_oauth_token (print l w) = temp_user_oauth_token w"
  "temp_google_oauth_states (print l w) = temp_google_oauth_states w"
  "makedirs_ok (print l w) = makedirs_ok w" "writable (print l w) = writable w"
  "stdout (print l w) = stdout w @ [l]"
  by (simp_all add: print_def)

lemma filepath_relative: "user_id = [] \<or> hd user_id \<noteq> CHR ''/'' \<Longrightarrow> filepath user_id = ''tokens/'' @ user_id @ ''.json''"
  by (cases user_id) (auto simp: filepath_def path_join_def FOLDER_def)

lemma filepath_u1: "filepath ''u1'' = ''tokens/u1.json''"
  by (simp add: filepath_relative)

lemma dict_get_update:
  "dict_get (AList.update k v d) k' = (if k' = k then v else dict_get d k')"
  by (simp add: dict_get_def update_conv')

lemma save_with_expires_in:
  assumes "makedirs_ok w" "writable w (filepath user_id)"
      and "map_of d ''expires_in'' = Some v" "as_int v = Some n"
  shows "save_user_google_tokens now w user_id (JObj d) =
           (Inr (), w\<lparr>files := (files w)(filepath user_id \<mapsto>
                      Json (JObj (AList.update ''expires_at'' (JInt (now + n)) d)))\<rparr>)"
  using assms by (simp add: save_user_google_tokens_def write_json_def)

lemma save_without_expires_in:
  assumes "makedirs_ok w" "writable w (filepath user_id)"
      and "map_of d ''expires_in'' = None"
  shows "save_user_google_tokens now w user_id (JObj d) =
           (Inr (),
            (print (''Warning: No 'expires_in' info for user '' @ user_id
                            @ ''. 'expires_at' set to 0.'') w)
              \<lparr>files := (files w)(filepath user_id \<mapsto>
                      Json (JObj (AList.update ''expires_at'' (JInt 0) d)))\<rparr>)"
  using assms by (simp add: save_user_google_tokens_def write_json_def)

text \<open>A save that returns has written the record with its expiry and nothing else.\<close>

lemma save_returns:
  assumes "save_user_google_tokens now w user_id token_data = (Inr u, w')"
  shows "\<exists>d x. token_data = JObj d
           \<and> files w' = (files w)(filepath user_id \<mapsto> Json (JObj (AList.update ''expires_at'' (JInt x) d)))
           \<and> (case map_of d ''expires_in'' of
                 None \<Rightarrow> x = 0
               | Some v \<Rightarrow> as_int v = Some (x - now))
           \<and> posts w' = posts w
           \<and> temp_google_oauth_states w' = temp_google_oauth_states w
           \<and> temp_user_oauth_token w' = temp_user_oauth_token w"
  using assms
  by (auto simp: save_user_google_tokens_def write_json_def
           split: if_splits json.splits option.splits)

lemma save_raises:
  assumes "save_user_google_tokens now w user_id token_data = (Inl e, w')"
  shows "files w' = files w \<and> posts w' = posts w
           \<and> temp_google_oauth_states w' = temp_google_oauth_states w
           \<and> temp_user_oauth_token w' = temp_user_oauth_token w"
  using assms
  by (auto simp: save_user_google_tokens_def write_json_def
           split: if_splits json.splits option.splits)

lemma credentials_of_record:
  assumes "files w (filepath user_id) = Some (Json (JObj token_data))"
      and "truthy (dict_get token_data ''access_token'')"
      and "dict_get token_data ''expires_at'' = JInt expires_at"
  shows "get_user_google_credentials now w user_id =
           (Inr (Some (if now < expires_at - 60
                       then (True, dict_get token_data ''access_token'')
                       else (False, dict_get token_data ''refresh_token''))), w)"
  using assms by (simp add: get_user_google_credentials_def load_token_data_def Let_def)

lemma with_record_file:
  "files with_record (filepath ''u1'') = Some (Json (JObj stored_record))"
  by (simp add: with_record_def filepath_u1)

lemma stored_record_fields:
  "dict_get stored_record ''access_token'' = JStr ''tok''"
  "dict_get stored_record ''refresh_token'' = JStr ''ref''"
  "dict_get stored_record ''expires_at'' = JInt 4600"
  by (simp_all add: stored_record_def dict_get_def)

lemma boot_writable: "makedirs_ok boot" "writable boot p"
  by (simp_all add: boot_def)

lemma with_record_writable: "makedirs_ok with_record" "writable with_record p"
  by (simp_all add: with_record_def boot_def)

lemma demo_env_answer: "provider demo_env n url data = Inr (JObj fresh_response)"
  by (simp add: demo_env_def)

lemma down_env_answer: "provider down_env n url data = Inl RequestError"
  by (simp add: down_env_def)

lemma with_sentinel_file:
  "files with_sentinel (filepath ''u1'') = Some (Json (JObj sentinel_record))"
  by (simp add: with_sentinel_def filepath_u1)

lemma sentinel_record_fields:
  "dict_get sentinel_record ''access_token'' = JStr ''tok''"
  "dict_get sentinel_record ''refresh_token'' = JStr ''ref''"
  "dict_get sentinel_record ''expires_at'' = JInt 0"
  by (simp_all add: sentinel_record_def dict_get_def)

lemma credentials_frame:
  assumes "get_user_google_credentials now w user_id = (r, w1)"
  shows "files w1 = files w \<and> posts w1 = posts w
       \<and> temp_user_oauth_token w1 = temp_user_oauth_token w
       \<and> temp_google_oauth_states w1 = temp_google_oauth_states w
       \<and> makedirs_ok w1 = makedirs_ok w \<and> writable w1 = writable w"
  using assms
  by (auto simp: get_user_google_credentials_def load_token_data_def Let_def
           split: option.splits content.splits json.splits if_splits)

lemma refresh_frame:
  assumes "refresh_google_access_token ev cfg now w userid refresh_token = (r, w1)"
  shows "posts w1 = posts w @ [(token_url, refresh_payload cfg refresh_token)]
       \<and> temp_user_oauth_token w1 = temp_user_oauth_token w
       \<and> temp_google_oauth_states w1 = temp_google_oauth_states w"
proof -
  let ?w1 = "w\<lparr>posts := posts w @ [(token_url, refresh_payload cfg refresh_token)]\<rparr>"
  have save: "posts w2 = posts ?w1 \<and> temp_user_oauth_token w2 = temp_user_oauth_token ?w1
              \<and> temp_google_oauth_states w2 = temp_google_oauth_states ?w1"
    if "save_user_google_tokens now ?w1 userid j = (x, w2)" for j x w2
  proof (cases x)
    case (Inl e)
    with that show ?thesis using save_raises by blast
  next
    case (Inr u)
    with that show ?thesis using save_returns by blast
  qed
  show ?thesis
    using assms
    by (auto simp: refresh_google_access_token_def requests_post_def Let_def
             split: sum.splits json.splits option.splits prod.splits dest!: save)
qed

lemma get_user_token_frame:
  assumes "get_user_token ev cfg now now' w user_id = (r, w1)"
  shows "temp_user_oauth_token w1 = temp_user_oauth_token w
       \<and> temp_google_oauth_states w1 = temp_google_oauth_states w"
  using assms
  by (auto simp: get_user_token_def
           split: sum.splits option.splits prod.splits if_splits
           dest!: credentials_frame refresh_frame)

lemma callback_tickets:
  assumes "handle_google_callback ev cfg now w q = (r, w1)"
  shows "temp_user_oauth_token w1 = temp_user_oauth_token w"
proof -
  have save: "temp_user_oauth_token w2 = temp_user_oauth_token w0"
    if "save_user_google_tokens now w0 uid j = (x, w2)" for j x w2 w0 uid
  proof (cases x)
    case (Inl e)
    with that show ?thesis using save_raises by blast
  next
    case (Inr u)
    with that show ?thesis using save_returns by blast
  qed
  show ?thesis
    using assms
    by (auto simp: handle_google_callback_def exchange_code_for_tokens_def requests_post_def Let_def
             split: sum.splits option.splits prod.splits if_splits dest!: save)
qed

lemma step_tickets:
  "temp_user_oauth_token (step ev cfg w e) =
     (case e of Issue u rnd \<Rightarrow> (temp_user_oauth_token w)(u \<mapsto> hex rnd)
      | _ \<Rightarrow> temp_user_oauth_token w)"
proof (cases e)
  case (Issue u rnd)
  then show ?thesis by (simp add: gen_user_auth_token_def Let_def)
next
  case (StartAuth u rnd)
  then show ?thesis by (simp add: start_google_auth_def Let_def)
next
  case (Callback q now)
  then show ?thesis
    using callback_tickets [of ev cfg now w q] by (cases "handle_google_callback ev cfg now w q") simp
next
  case (GetToken u now now')
  then show ?thesis
    using get_user_token_frame [of ev cfg now now' w u]
    by (cases "get_user_token ev cfg now now' w u") simp
qed

lemma run_snoc: "run ev cfg w (evs @ [e]) = step ev cfg (run ev cfg w evs) e"
  by (simp add: run_def)

lemma last_issued_snoc:
  "last_issued (evs @ [e]) u = (case issued_by e u of Some s \<Rightarrow> Some s | None \<Rightarrow> last_issued evs u)"
  by (induction evs) (auto split: option.splits)


lemma run_tickets:
  "temp_user_oauth_token (run ev cfg w evs) u =
     (case last_issued evs u of Some s \<Rightarrow> Some s | None \<Rightarrow> temp_user_oauth_token w u)"
proof (induction evs rule: rev_induct)
  case Nil
  show ?case by (simp add: run_def)
next
  case (snoc e evs)
  show ?case
    by (cases e) (simp_all add: run_snoc step_tickets last_issued_snoc snoc.IH del: step.simps)
qed

lemma issue_secret: "fst (gen_user_auth_token w u rnd) = hex rnd"
  by (simp add: gen_user_auth_token_def Let_def)

lemma issue_tickets:
  "temp_user_oauth_token (snd (gen_user_auth_token w u rnd)) = (temp_user_oauth_token w)(u \<mapsto> hex rnd)"
  by (simp add: gen_user_auth_token_def Let_def)

lemma callback_states:
  assumes "handle_google_callback ev cfg now w q = (r, w1)"
  shows "temp_google_oauth_states w1 = temp_google_oauth_states w
       \<or> (\<exists>k. temp_google_oauth_states w1 = (temp_google_oauth_states w)(k := None))"
proof -
  have save: "temp_google_oauth_states w2 = temp_google_oauth_states w0"
    if "save_user_google_tokens now w0 uid j = (x, w2)" for j x w2 w0 uid
  proof (cases x)
    case (Inl e)
    with that show ?thesis using save_raises by blast
  next
    case (Inr u)
    with that show ?thesis using save_returns by blast
  qed
  show ?thesis
    using assms
    by (auto simp: handle_google_callback_def exchange_code_for_tokens_def requests_post_def Let_def
             split: sum.splits option.splits prod.splits if_splits dest!: save)
qed

lemma step_state_absent:
  assumes "temp_google_oauth_states w s = None" "\<not> registers s e"
  shows "temp_google_oauth_states (step ev cfg w e) s = None"
proof (cases e)
  case (Issue u rnd)
  then show ?thesis using assms by (simp add: gen_user_auth_token_def Let_def)
next
  case (StartAuth u rnd)
  then show ?thesis using assms by (simp add: start_google_auth_def Let_def)
next
  case (Callback q now)
  then show ?thesis
    using callback_states [of ev cfg now w q] assms
    by (cases "handle_google_callback ev cfg now w q") auto
next
  case (GetToken u now now')
  then show ?thesis
    using get_user_token_frame [of ev cfg now now' w u] assms
    by (cases "get_user_token ev cfg now now' w u") simp
qed

lemma run_state_absent:
  assumes "temp_google_oauth_states w s = None" "\<forall>e \<in> set evs. \<not> registers s e"
  shows "temp_google_oauth_states (run ev cfg w evs) s = None"
  using assms
proof (induction evs rule: rev_induct)
  case Nil
  then show ?case by (simp add: run_def)
next
  case (snoc e evs)
  then show ?case by (simp add: run_snoc step_state_absent)
qed

lemma callback_consumes:
  assumes "q ''state'' = Some s" "s \<noteq> []" "present (q ''code'')" "\<not> present (q ''error'')"
  shows "temp_google_oauth_states (snd (handle_google_callback ev cfg now w q)) s = None"
proof -
  have save: "temp_google_oauth_states w2 = temp_google_oauth_states w0"
    if "save_user_google_tokens now w0 uid j = (x, w2)" for j x w2 w0 uid
  proof (cases x)
    case (Inl e)
    with that show ?thesis using save_raises by blast
  next
    case (Inr u)
    with that show ?thesis using save_returns by blast
  qed
  show ?thesis
    using assms
    by (auto simp: handle_google_callback_def exchange_code_for_tokens_def requests_post_def Let_def present_def
             split: sum.splits option.splits prod.splits if_splits dest!: save)
qed

lemma callback_unknown_state:
  assumes "temp_google_oauth_states w s = None" "q ''state'' = Some s"
      and "handle_google_callback ev cfg now w q = (r, w1)"
  shows "(\<exists>body. r = PlainTextResponse body 400) \<and> posts w1 = posts w \<and> files w1 = files w"
  using assms
  by (auto simp: handle_google_callback_def Let_def invalid_parameters_def
           split: option.splits if_splits)

section \<open>The token lifecycle\<close>

text \<open>
  Claim C1. When the stored record of a user (a JSON object with an access token that is
  there and an integer expiry) has \<open>now < expires_at - 60\<close>, \<open>get_user_token\<close> returns the
  stored access token and leaves the world as it was: no provider call, no write, no
  printed line. The validity flag of \<open>get_user_google_credentials\<close> is exactly
  \<open>now < expires_at - 60\<close>.
\<close>

theorem fresh_record_returned_unchanged:
  assumes "files w (filepath user_id) = Some (Json (JObj token_data))"
      and "truthy (dict_get token_data ''access_token'')"
      and "dict_get token_data ''expires_at'' = JInt expires_at"
  shows "fst (get_user_google_credentials now w user_id) =
           Inr (Some (now < expires_at - 60,
                      if now < expires_at - 60 then dict_get token_data ''access_token''
                      else dict_get token_data ''refresh_token''))
       \<and> (now < expires_at - 60 \<longrightarrow>
            get_user_token ev cfg now now' w user_id =
              (Inr (dict_get token_data ''access_token''), w))"
  using credentials_of_record [OF assms, of now]
  by (simp add: get_user_token_def)

theorem fresh_record_returned_unchanged_witness:
  "files with_record (filepath ''u1'') = Some (Json (JObj stored_record))
   \<and> truthy (dict_get stored_record ''access_token'')
   \<and> dict_get stored_record ''expires_at'' = JInt 4600
   \<and> (1000 :: int) < 4600 - 60
   \<and> get_user_token down_env demo_cfg 1000 1000 with_record ''u1'' = (Inr (JStr ''tok''), with_record)"
  using fresh_record_returned_unchanged
          [of with_record "''u1''" stored_record 4600 1000 down_env demo_cfg 1000]
  by (simp add: with_record_file stored_record_fields)

section \<open>The authorization tickets\<close>

text \<open>
  Claim C5. From a process start with no tickets, after any sequence of calls of the
  service, \<open>match_user_auth_token\<close> accepts a secret for a user exactly when a ticket was
  issued for that user and the secret is the one issued last. In particular, in any
  world: the secret \<open>gen_user_auth_token\<close> returns validates right away; no other secret
  does for that user; what other users validate is untouched by the issue (nothing, when
  no ticket was there before); and after a second issue for the same user the first
  secret validates only if the second draw produced the same secret again.
\<close>

theorem validate_iff_last_issued:
  assumes "temp_user_oauth_token w = Map.empty"
  shows "(match_user_auth_token (run ev cfg w evs) u s \<longleftrightarrow> last_issued evs u = Some s)
    \<and> match_user_auth_token (snd (gen_user_auth_token w1 u rnd)) u (fst (gen_user_auth_token w1 u rnd))
    \<and> (match_user_auth_token (snd (gen_user_auth_token w1 u rnd)) u s
         \<longleftrightarrow> s = fst (gen_user_auth_token w1 u rnd))
    \<and> (u' \<noteq> u \<longrightarrow> match_user_auth_token (snd (gen_user_auth_token w1 u rnd)) u' s
                     = match_user_auth_token w1 u' s)
    \<and> (u' \<noteq> u \<longrightarrow> \<not> match_user_auth_token (snd (gen_user_auth_token w u rnd)) u' s)
    \<and> (match_user_auth_token
          (snd (gen_user_auth_token (run ev cfg (snd (gen_user_auth_token w1 u rnd)) evs) u rnd'))
          u (fst (gen_user_auth_token w1 u rnd))
         \<longleftrightarrow> hex rnd' = hex rnd)"
proof -
  have a: "match_user_auth_token (run ev cfg w evs) u s \<longleftrightarrow> last_issued evs u = Some s"
    by (auto simp: match_user_auth_token_def run_tickets assms split: option.splits)
  have b: "match_user_auth_token (snd (gen_user_auth_token w1 u rnd)) u s
         \<longleftrightarrow> s = fst (gen_user_auth_token w1 u rnd)" for s
    by (auto simp: match_user_auth_token_def issue_tickets issue_secret)
  have c: "u' \<noteq> u \<Longrightarrow> match_user_auth_token (snd (gen_user_auth_token w1 u rnd)) u' s
         = match_user_auth_token w1 u' s" for w1
    by (simp add: match_user_auth_token_def issue_tickets)
  have d: "\<not> match_user_auth_token w u' s"
    by (simp add: match_user_auth_token_def assms)
  have e: "match_user_auth_token
          (snd (gen_user_auth_token (run ev cfg (snd (gen_user_auth_token w1 u rnd)) evs) u rnd'))
          u (fst (gen_user_auth_token w1 u rnd))
         \<longleftrightarrow> hex rnd' = hex rnd"
    by (simp add: match_user_auth_token_def issue_tickets issue_secret)
  show ?thesis using a b c d e by blast
qed

theorem validate_iff_last_issued_witness:
  "temp_user_oauth_token boot = Map.empty
   \<and> last_issued [Issue ''u1'' [0x01, 0x02], StartAuth ''u1'' [0x0a], Issue ''u2'' [0x03],
                    Issue ''u1'' [0xff, 0x10]] ''u1'' = Some ''ff10''
   \<and> match_user_auth_token
        (run demo_env demo_cfg boot
           [Issue ''u1'' [0x01, 0x02], StartAuth ''u1'' [0x0a], Issue ''u2'' [0x03],
            Issue ''u1'' [0xff, 0x10]]) ''u1'' ''ff10''
   \<and> match_user_auth_token (snd (gen_user_auth_token boot ''u1'' [0x01, 0x02])) ''u1''
        (fst (gen_user_auth_token boot ''u1'' [0x01, 0x02]))
   \<and> ''u2'' \<noteq> ''u1''
   \<and> \<not> match_user_auth_token (snd (gen_user_auth_token boot ''u1'' [0x01, 0x02])) ''u2'' ''ff10''
   \<and> hex [0xff, 0x10] \<noteq> hex [0x01, 0x02]
   \<and> \<not> match_user_auth_token
          (snd (gen_user_auth_token
                  (run demo_env demo_cfg (snd (gen_user_auth_token boot ''u1'' [0x01, 0x02]))
                     [Issue ''u1'' [0x01, 0x02], StartAuth ''u1'' [0x0a], Issue ''u2'' [0x03],
                      Issue ''u1'' [0xff, 0x10]])
                  ''u1'' [0xff, 0x10]))
          ''u1'' (fst (gen_user_auth_token boot ''u1'' [0x01, 0x02]))"
proof -
  have none: "temp_user_oauth_token boot = Map.empty"
    by (simp add: boot_def)
  have last: "last_issued [Issue ''u1'' [0x01, 0x02], StartAuth ''u1'' [0x0a], Issue ''u2'' [0x03],
                    Issue ''u1'' [0xff, 0x10]] ''u1'' = Some ''ff10''"
    by (simp add: hex_def hex_digit_def)
  have differ: "hex [0xff, 0x10] \<noteq> hex [0x01, 0x02]"
    by (simp add: hex_def hex_digit_def)
  have users: "''u2'' \<noteq> ''u1''"
    by simp
  show ?thesis
    using validate_iff_last_issued
          [OF none, where ev = demo_env and cfg = demo_cfg
             and evs = "[Issue ''u1'' [0x01, 0x02], StartAuth ''u1'' [0x0a], Issue ''u2'' [0x03],
                         Issue ''u1'' [0xff, 0x10]]"
             and u = "''u1''" and s = "''ff10''" and ?w1.0 = boot and rnd = "[0x01, 0x02]"
             and u' = "''u2''" and rnd' = "[0xff, 0x10]"]
          none last differ users
    by blast
qed

section \<open>The OAuth state\<close>

text \<open>
  Claim C6. A callback that presents a state with a code and no error removes that state
  from the state map. After it, whatever calls the service handles in between (none of
  them a consent redirect whose random draw is that same state), a callback presenting
  the state again is answered with status 400, whatever its code, and makes no provider
  call and writes no file.
\<close>

theorem state_single_use:
  assumes "q1 ''state'' = Some s" "s \<noteq> []" "present (q1 ''code'')" "\<not> present (q1 ''error'')"
      and "temp_google_oauth_states w s = Some uid"
      and "\<forall>e \<in> set evs. \<not> registers s e"
      and "q2 ''state'' = Some s"
  shows "temp_google_oauth_states (snd (handle_google_callback ev cfg now1 w q1)) s = None
       \<and> (\<exists>body. fst (handle_google_callback ev cfg now2
                      (run ev cfg (snd (handle_google_callback ev cfg now1 w q1)) evs) q2)
                 = PlainTextResponse body 400)
       \<and> posts (snd (handle_google_callback ev cfg now2
                      (run ev cfg (snd (handle_google_callback ev cfg now1 w q1)) evs) q2))
           = posts (run ev cfg (snd (handle_google_callback ev cfg now1 w q1)) evs)
       \<and> files (snd (handle_google_callback ev cfg now2
                      (run ev cfg (snd (handle_google_callback ev cfg now1 w q1)) evs) q2))
           = files (run ev cfg (snd (handle_google_callback ev cfg now1 w q1)) evs)"
proof -
  let ?w1 = "snd (handle_google_callback ev cfg now1 w q1)"
  let ?w2 = "run ev cfg ?w1 evs"
  have gone: "temp_google_oauth_states ?w1 s = None"
    using assms(1-4) by (rule callback_consumes)
  then have "temp_google_oauth_states ?w2 s = None"
    using assms(6) by (rule run_state_absent)
  then show ?thesis
    using gone callback_unknown_state [of ?w2 s q2 ev cfg now2] assms(7)
    by (cases "handle_google_callback ev cfg now2 ?w2 q2") auto
qed

theorem state_single_use_witness:
  "temp_google_oauth_states pending ''abcd'' = Some ''u1''
   \<and> temp_google_oauth_states
        (snd (handle_google_callback demo_env demo_cfg 1000 pending
                [''code'' \<mapsto> ''c1'', ''state'' \<mapsto> ''abcd''])) ''abcd'' = None
   \<and> (\<exists>body. fst (handle_google_callback demo_env demo_cfg 2000
                      (run demo_env demo_cfg
                         (snd (handle_google_callback demo_env demo_cfg 1000 pending
                                 [''code'' \<mapsto> ''c1'', ''state'' \<mapsto> ''abcd'']))
                         [Issue ''u1'' [0x01], StartAuth ''u2'' [0xab, 0xce], GetToken ''u1'' 1500 1501])
                      [''code'' \<mapsto> ''c2'', ''state'' \<mapsto> ''abcd''])
                 = PlainTextResponse body 400)
   \<and> posts (snd (handle_google_callback demo_env demo_cfg 2000
                      (run demo_env demo_cfg
                         (snd (handle_google_callback demo_env demo_cfg 1000 pending
                                 [''code'' \<mapsto> ''c1'', ''state'' \<mapsto> ''abcd'']))
                         [Issue ''u1'' [0x01], StartAuth ''u2'' [0xab, 0xce], GetToken ''u1'' 1500 1501])
                      [''code'' \<mapsto> ''c2'', ''state'' \<mapsto> ''abcd'']))
       = posts (run demo_env demo_cfg
                         (snd (handle_google_callback demo_env demo_cfg 1000 pending
                                 [''code'' \<mapsto> ''c1'', ''state'' \<mapsto> ''abcd'']))
                         [Issue ''u1'' [0x01], StartAuth ''u2'' [0xab, 0xce], GetToken ''u1'' 1500 1501])"
proof -
  let ?q1 = "[''code'' \<mapsto> ''c1'', ''state'' \<mapsto> ''abcd'']"
  let ?q2 = "[''code'' \<mapsto> ''c2'', ''state'' \<mapsto> ''abcd'']"
  let ?evs = "[Issue ''u1'' [0x01], StartAuth ''u2'' [0xab, 0xce], GetToken ''u1'' 1500 1501]"
  have state1: "?q1 ''state'' = Some ''abcd''" and nonempty: "''abcd'' \<noteq> []"
    and code1: "present (?q1 ''code'')" and error1: "\<not> present (?q1 ''error'')"
    by (simp_all add: present_def)
  have stored: "temp_google_oauth_states pending ''abcd'' = Some ''u1''"
    by (simp add: pending_def)
  have between: "\<forall>e \<in> set ?evs. \<not> registers ''abcd'' e"
    by (simp add: hex_def hex_digit_def)
  have state2: "?q2 ''state'' = Some ''abcd''"
    by simp
  show ?thesis
    using state_single_use
            [where ?q1.0 = ?q1 and ?q2.0 = ?q2 and s = "''abcd''" and w = pending
               and evs = ?evs and uid = "''u1''" and ev = demo_env and cfg = demo_cfg
               and ?now1.0 = 1000 and ?now2.0 = 2000,
             OF state1 nonempty code1 error1 stored between state2]
          stored
    by blast
qed

text \<open>
  Claim C10. A callback whose \<open>error\<close> parameter is there and not empty is answered
  with status 400 at once, and the only change to the world is the printed line: the
  state map is as before. So a state stored before it is still there for the next
  callback that presents it with a code and no error: that callback passes the state
  check, removes the state and makes the code exchange request (its answer is then the
  success page or, when the exchange or the save fails, the internal error).
\<close>

theorem error_callback_keeps_state:
  assumes "q ''error'' = Some err" "err \<noteq> []"
  shows "handle_google_callback ev cfg now w q =
           (PlainTextResponse (''Google OAuth Error: '' @ err) 400,
            print (''Google OAuth error: '' @ err) w)
       \<and> temp_google_oauth_states (snd (handle_google_callback ev cfg now w q))
           = temp_google_oauth_states w
       \<and> (temp_google_oauth_states w s = Some uid \<and> s \<noteq> []
            \<and> q2 ''state'' = Some s \<and> q2 ''code'' = Some c \<and> c \<noteq> [] \<and> \<not> present (q2 ''error'')
          \<longrightarrow> posts (snd (handle_google_callback ev cfg now2
                             (snd (handle_google_callback ev cfg now w q)) q2))
                = posts w @ [(token_url, exchange_payload cfg c)]
              \<and> temp_google_oauth_states
                  (snd (handle_google_callback ev cfg now2
                          (snd (handle_google_callback ev cfg now w q)) q2)) s = None
              \<and> fst (handle_google_callback ev cfg now2
                        (snd (handle_google_callback ev cfg now w q)) q2)
                  \<in> {PlainTextResponse ''You can close the tab.'' 200,
                      PlainTextResponse ''An internal error occurred.'' 500})"
proof -
  have first: "handle_google_callback ev cfg now w q =
           (PlainTextResponse (''Google OAuth Error: '' @ err) 400,
            print (''Google OAuth error: '' @ err) w)"
    using assms by (simp add: handle_google_callback_def present_def format_opt_def)
  have later: "posts (snd (handle_google_callback ev cfg now2 w1 q2))
                = posts w1 @ [(token_url, exchange_payload cfg c)]
              \<and> temp_google_oauth_states (snd (handle_google_callback ev cfg now2 w1 q2)) s = None
              \<and> fst (handle_google_callback ev cfg now2 w1 q2)
                  \<in> {PlainTextResponse ''You can close the tab.'' 200,
                      PlainTextResponse ''An internal error occurred.'' 500}"
    if "temp_google_oauth_states w1 s = Some uid" "s \<noteq> []" "q2 ''state'' = Some s"
       "q2 ''code'' = Some c" "c \<noteq> []" "\<not> present (q2 ''error'')" for w1
  proof -
    let ?w1 = "w1\<lparr>temp_google_oauth_states := (temp_google_oauth_states w1)(s := None)\<rparr>"
    let ?w2 = "?w1\<lparr>posts := posts w1 @ [(token_url, exchange_payload cfg c)]\<rparr>"
    have save: "posts w3 = posts ?w2 \<and> temp_google_oauth_states w3 = temp_google_oauth_states ?w2"
      if "save_user_google_tokens now2 ?w2 uid j = (x, w3)" for j x w3
    proof (cases x)
      case (Inl e)
      with that show ?thesis using save_raises by blast
    next
      case (Inr u)
      with that show ?thesis using save_returns by blast
    qed
    show ?thesis
      using that
      by (auto simp: handle_google_callback_def exchange_code_for_tokens_def requests_post_def
                     Let_def present_def
               split: sum.splits prod.splits dest!: save)
  qed
  show ?thesis
    using first later [of "print (''Google OAuth error: '' @ err) w"] by simp
qed

theorem error_callback_keeps_state_witness:
  "handle_google_callback demo_env demo_cfg 1000 pending
       [''error'' \<mapsto> ''access_denied'', ''state'' \<mapsto> ''abcd'']
     = (PlainTextResponse (''Google OAuth Error: '' @ ''access_denied'') 400,
        print (''Google OAuth error: '' @ ''access_denied'') pending)
   \<and> temp_google_oauth_states pending ''abcd'' = Some ''u1''
   \<and> temp_google_oauth_states
        (snd (handle_google_callback demo_env demo_cfg 1000 pending
                [''error'' \<mapsto> ''access_denied'', ''state'' \<mapsto> ''abcd'']))
        ''abcd'' = Some ''u1''
   \<and> posts (snd (handle_google_callback demo_env demo_cfg 2000
                    (snd (handle_google_callback demo_env demo_cfg 1000 pending
                            [''error'' \<mapsto> ''access_denied'', ''state'' \<mapsto> ''abcd'']))
                    [''code'' \<mapsto> ''c1'', ''state'' \<mapsto> ''abcd'']))
       = posts pending @ [(token_url, exchange_payload demo_cfg ''c1'')]
   \<and> temp_google_oauth_states
        (snd (handle_google_callback demo_env demo_cfg 2000
                (snd (handle_google_callback demo_env demo_cfg 1000 pending
                        [''error'' \<mapsto> ''access_denied'', ''state'' \<mapsto> ''abcd'']))
                [''code'' \<mapsto> ''c1'', ''state'' \<mapsto> ''abcd'']))
        ''abcd'' = None"
proof -
  let ?q = "[''error'' \<mapsto> ''access_denied'', ''state'' \<mapsto> ''abcd'']"
  let ?q2 = "[''code'' \<mapsto> ''c1'', ''state'' \<mapsto> ''abcd'']"
  have error: "?q ''error'' = Some ''access_denied''" and nonempty: "''access_denied'' \<noteq> []"
    by simp_all
  have stored: "temp_google_oauth_states pending ''abcd'' = Some ''u1''"
    by (simp add: pending_def)
  have later: "''abcd'' \<noteq> []" "?q2 ''state'' = Some ''abcd''" "?q2 ''code'' = Some ''c1''"
    "''c1'' \<noteq> []" "\<not> present (?q2 ''error'')"
    by (simp_all add: present_def)
  note claim = error_callback_keeps_state
            [where q = ?q and err = "''access_denied''" and ev = demo_env and cfg = demo_cfg
               and now = 1000 and w = pending and s = "''abcd''" and uid = "''u1''"
               and ?q2.0 = ?q2 and c = "''c1''" and ?now2.0 = 2000,
             OF error nonempty]
  from claim have kept:
    "temp_google_oauth_states (snd (handle_google_callback demo_env demo_cfg 1000 pending ?q))
       = temp_google_oauth_states pending"
    by blast
  have still: "temp_google_oauth_states
                 (snd (handle_google_callback demo_env demo_cfg 1000 pending ?q)) ''abcd''
               = Some ''u1''"
    by (simp only: kept stored)
  show ?thesis
    using claim stored later still by blast
qed


section \<open>The credential store and the refresh\<close>

lemma load_after_write:
  "load_token_data (w\<lparr>files := (files w)(filepath user_id \<mapsto> Json j)\<rparr>) user_id
     = (Some j, w\<lparr>files := (files w)(filepath user_id \<mapsto> Json j)\<rparr>)"
  by (simp add: load_token_data_def)

lemma refresh_request_fails:
  assumes "provider ev (length (posts w)) token_url (refresh_payload cfg refresh_token) = Inl e"
  shows "refresh_google_access_token ev cfg now w userid refresh_token =
           (JNull, print (refresh_error_line userid)
                     (w\<lparr>posts := posts w @ [(token_url, refresh_payload cfg refresh_token)]\<rparr>))"
  using assms by (simp add: refresh_google_access_token_def requests_post_def)

lemma refresh_succeeds:
  assumes "provider ev (length (posts w)) token_url (refresh_payload cfg refresh_token) = Inr (JObj d)"
      and "map_of d ''access_token'' = Some a"
      and "makedirs_ok w" "writable w (filepath userid)"
      and "case map_of d ''expires_in'' of None \<Rightarrow> x = 0 | Some v \<Rightarrow> as_int v = Some (x - now)"
  shows "fst (refresh_google_access_token ev cfg now w userid refresh_token) = a
       \<and> files (snd (refresh_google_access_token ev cfg now w userid refresh_token)) =
           (files w)(filepath userid \<mapsto>
              Json (JObj (AList.update ''expires_at'' (JInt x)
                            (AList.update ''refresh_token'' refresh_token d))))"
proof -
  let ?w1 = "w\<lparr>posts := posts w @ [(token_url, refresh_payload cfg refresh_token)]\<rparr>"
  let ?d1 = "AList.update ''refresh_token'' refresh_token d"
  have keys: "map_of ?d1 ''expires_in'' = map_of d ''expires_in''"
             "map_of ?d1 ''access_token'' = Some a"
    using assms(2) by (simp_all add: update_conv')
  have ok: "makedirs_ok ?w1" "writable ?w1 (filepath userid)"
    using assms(3,4) by simp_all
  show ?thesis
  proof (cases "map_of d ''expires_in''")
    case None
    with assms(5) have x: "x = 0" by simp
    from None keys have "map_of ?d1 ''expires_in'' = None" by simp
    from save_without_expires_in [OF ok this, of now] show ?thesis
      using assms(1) keys(2) x
      by (simp add: refresh_google_access_token_def requests_post_def Let_def)
  next
    case (Some v)
    with assms(5) have v: "as_int v = Some (x - now)" by simp
    from Some keys have "map_of ?d1 ''expires_in'' = Some v" by simp
    from save_with_expires_in [OF ok this v, of now] show ?thesis
      using assms(1) keys(2)
      by (simp add: refresh_google_access_token_def requests_post_def Let_def)
  qed
qed

text \<open>What a refresh that returned a token has done.\<close>

lemma refresh_returned:
  assumes "refresh_google_access_token ev cfg now w userid refresh_token = (token, w')"
      and "token \<noteq> JNull"
  shows "\<exists>d x. provider ev (length (posts w)) token_url (refresh_payload cfg refresh_token)
                 = Inr (JObj d)
           \<and> map_of d ''access_token'' = Some token
           \<and> (case map_of d ''expires_in'' of None \<Rightarrow> x = 0 | Some v \<Rightarrow> as_int v = Some (x - now))
           \<and> files w' = (files w)(filepath userid \<mapsto>
                 Json (JObj (AList.update ''expires_at'' (JInt x)
                               (AList.update ''refresh_token'' refresh_token d))))"
proof -
  let ?w1 = "w\<lparr>posts := posts w @ [(token_url, refresh_payload cfg refresh_token)]\<rparr>"
  from assms obtain d where d: "provider ev (length (posts w)) token_url
                                  (refresh_payload cfg refresh_token) = Inr (JObj d)"
    by (auto simp: refresh_google_access_token_def requests_post_def
             split: sum.splits json.splits)
  let ?d1 = "AList.update ''refresh_token'' refresh_token d"
  obtain r w2 where save: "save_user_google_tokens now ?w1 userid (JObj ?d1) = (r, w2)"
    by (cases "save_user_google_tokens now ?w1 userid (JObj ?d1)")
  from assms d save obtain u where r: "r = Inr u"
    by (cases r) (auto simp: refresh_google_access_token_def requests_post_def Let_def)
  from assms d save r have tok: "map_of ?d1 ''access_token'' = Some token" and w': "w' = w2"
    by (auto simp: refresh_google_access_token_def requests_post_def Let_def
             split: option.splits)
  from save_returns [OF save [unfolded r]] obtain x where
    x: "files w2 = (files ?w1)(filepath userid \<mapsto> Json (JObj (AList.update ''expires_at'' (JInt x) ?d1)))"
       "case map_of ?d1 ''expires_in'' of None \<Rightarrow> x = 0 | Some v \<Rightarrow> as_int v = Some (x - now)"
    by auto
  have "map_of d ''access_token'' = Some token"
    using tok by (simp add: update_conv')
  moreover have "case map_of d ''expires_in'' of None \<Rightarrow> x = 0 | Some v \<Rightarrow> as_int v = Some (x - now)"
    using x(2) by (simp add: update_conv')
  ultimately show ?thesis
    using d x(1) w' by auto
qed

lemma refresh_posts_once:
  "posts (snd (refresh_google_access_token ev cfg now w userid refresh_token))
     = posts w @ [(token_url, refresh_payload cfg refresh_token)]"
  using refresh_frame [of ev cfg now w userid refresh_token]
  by (cases "refresh_google_access_token ev cfg now w userid refresh_token") simp

lemma token_of_stale_record:
  assumes "files w (filepath user_id) = Some (Json (JObj token_data))"
      and "truthy (dict_get token_data ''access_token'')"
      and "dict_get token_data ''expires_at'' = JInt expires_at"
      and "now \<ge> expires_at - 60"
  shows "get_user_token ev cfg now now' w user_id =
           (Inr (fst (refresh_google_access_token ev cfg now' w user_id
                        (dict_get token_data ''refresh_token''))),
            snd (refresh_google_access_token ev cfg now' w user_id
                   (dict_get token_data ''refresh_token'')))"
  using credentials_of_record [OF assms(1-3), of now] assms(4)
  by (simp add: get_user_token_def split: prod.splits)

text \<open>
  Claim C7. When the folder and the file can be written, a save of a token object
  followed by a load for the same user gives an object whose \<open>access_token\<close> and
  \<open>refresh_token\<close> read as in what was saved. Its \<open>expires_at\<close> is the clock reading
  of the save plus \<open>expires_in\<close> when the object carries an integer \<open>expires_in\<close>, and
  nothing is printed; it is 0 when the object has no \<open>expires_in\<close>, and the warning line
  is printed.
\<close>

theorem save_then_load:
  assumes "makedirs_ok w" "writable w (filepath user_id)"
  shows "(map_of d ''expires_in'' = Some v \<and> as_int v = Some n \<longrightarrow>
            fst (save_user_google_tokens now w user_id (JObj d)) = Inr ()
          \<and> (\<exists>record.
                load_token_data (snd (save_user_google_tokens now w user_id (JObj d))) user_id
                  = (Some (JObj record), snd (save_user_google_tokens now w user_id (JObj d)))
              \<and> dict_get record ''access_token'' = dict_get d ''access_token''
              \<and> dict_get record ''refresh_token'' = dict_get d ''refresh_token''
              \<and> dict_get record ''expires_at'' = JInt (now + n))
          \<and> stdout (snd (save_user_google_tokens now w user_id (JObj d))) = stdout w)
       \<and> (map_of d ''expires_in'' = None \<longrightarrow>
            fst (save_user_google_tokens now w user_id (JObj d)) = Inr ()
          \<and> (\<exists>record.
                load_token_data (snd (save_user_google_tokens now w user_id (JObj d))) user_id
                  = (Some (JObj record), snd (save_user_google_tokens now w user_id (JObj d)))
              \<and> dict_get record ''access_token'' = dict_get d ''access_token''
              \<and> dict_get record ''refresh_token'' = dict_get d ''refresh_token''
              \<and> dict_get record ''expires_at'' = JInt 0)
          \<and> stdout (snd (save_user_google_tokens now w user_id (JObj d)))
              = stdout w @ [''Warning: No 'expires_in' info for user '' @ user_id
                            @ ''. 'expires_at' set to 0.''])"
proof (intro conjI impI)
  assume a: "map_of d ''expires_in'' = Some v \<and> as_int v = Some n"
  then have s: "save_user_google_tokens now w user_id (JObj d) =
           (Inr (), w\<lparr>files := (files w)(filepath user_id \<mapsto>
                      Json (JObj (AList.update ''expires_at'' (JInt (now + n)) d)))\<rparr>)"
    using assms save_with_expires_in by blast
  show "fst (save_user_google_tokens now w user_id (JObj d)) = Inr ()"
    by (simp add: s)
  show "\<exists>record.
                load_token_data (snd (save_user_google_tokens now w user_id (JObj d))) user_id
                  = (Some (JObj record), snd (save_user_google_tokens now w user_id (JObj d)))
              \<and> dict_get record ''access_token'' = dict_get d ''access_token''
              \<and> dict_get record ''refresh_token'' = dict_get d ''refresh_token''
              \<and> dict_get record ''expires_at'' = JInt (now + n)"
    by (rule exI [of _ "AList.update ''expires_at'' (JInt (now + n)) d"])
       (simp add: s load_after_write dict_get_update)
  show "stdout (snd (save_user_google_tokens now w user_id (JObj d))) = stdout w"
    by (simp add: s)
next
  assume a: "map_of d ''expires_in'' = None"
  then have s: "save_user_google_tokens now w user_id (JObj d) =
           (Inr (),
            (print (''Warning: No 'expires_in' info for user '' @ user_id
                            @ ''. 'expires_at' set to 0.'') w)
              \<lparr>files := (files w)(filepath user_id \<mapsto>
                      Json (JObj (AList.update ''expires_at'' (JInt 0) d)))\<rparr>)"
    using assms save_without_expires_in by blast
  show "fst (save_user_google_tokens now w user_id (JObj d)) = Inr ()"
    by (simp add: s)
  show "\<exists>record.
                load_token_data (snd (save_user_google_tokens now w user_id (JObj d))) user_id
                  = (Some (JObj record), snd (save_user_google_tokens now w user_id (JObj d)))
              \<and> dict_get record ''access_token'' = dict_get d ''access_token''
              \<and> dict_get record ''refresh_token'' = dict_get d ''refresh_token''
              \<and> dict_get record ''expires_at'' = JInt 0"
    by (rule exI [of _ "AList.update ''expires_at'' (JInt 0) d"])
       (simp add: s load_token_data_def dict_get_update)
  show "stdout (snd (save_user_google_tokens now w user_id (JObj d)))
              = stdout w @ [''Warning: No 'expires_in' info for user '' @ user_id
                            @ ''. 'expires_at' set to 0.'']"
    by (simp add: s)
qed

theorem save_then_load_witness:
  "makedirs_ok boot \<and> writable boot (filepath ''u1'')
   \<and> map_of full_response ''expires_in'' = Some (JInt 3599) \<and> as_int (JInt 3599) = Some 3599
   \<and> fst (save_user_google_tokens 1000 boot ''u1'' (JObj full_response)) = Inr ()
   \<and> (\<exists>record.
         load_token_data (snd (save_user_google_tokens 1000 boot ''u1'' (JObj full_response))) ''u1''
           = (Some (JObj record), snd (save_user_google_tokens 1000 boot ''u1'' (JObj full_response)))
       \<and> dict_get record ''access_token'' = dict_get full_response ''access_token''
       \<and> dict_get record ''refresh_token'' = dict_get full_response ''refresh_token''
       \<and> dict_get record ''expires_at'' = JInt (1000 + 3599))
   \<and> map_of bare_response ''expires_in'' = None
   \<and> (\<exists>record.
         load_token_data (snd (save_user_google_tokens 1000 boot ''u1'' (JObj bare_response))) ''u1''
           = (Some (JObj record), snd (save_user_google_tokens 1000 boot ''u1'' (JObj bare_response)))
       \<and> dict_get record ''access_token'' = dict_get bare_response ''access_token''
       \<and> dict_get record ''refresh_token'' = dict_get bare_response ''refresh_token''
       \<and> dict_get record ''expires_at'' = JInt 0)
   \<and> stdout (snd (save_user_google_tokens 1000 boot ''u1'' (JObj bare_response)))
       = stdout boot @ [''Warning: No 'expires_in' info for user '' @ ''u1''
                        @ ''. 'expires_at' set to 0.'']"
proof -
  have full: "map_of full_response ''expires_in'' = Some (JInt 3599)" "as_int (JInt 3599) = Some 3599"
    by (simp_all add: full_response_def)
  have bare: "map_of bare_response ''expires_in'' = None"
    by (simp add: bare_response_def)
  show ?thesis
    using save_then_load [OF boot_writable(1) boot_writable(2) [of "filepath ''u1''"],
            where d = full_response and v = "JInt 3599" and n = 3599 and now = 1000]
          save_then_load [OF boot_writable(1) boot_writable(2) [of "filepath ''u1''"],
            where d = bare_response and now = 1000]
          full bare boot_writable(1) boot_writable(2) [of "filepath ''u1''"]
    by blast
qed

text \<open>
  Claim C8. A refresh that returned a token has written a record whose \<open>refresh_token\<close>
  is the one presented to the call, whether or not the provider's response carries one
  of its own. Its \<open>expires_at\<close> is computed from the response's \<open>expires_in\<close> and the
  clock (0 without one), every other field reads as in the response, and the returned
  token is the record's \<open>access_token\<close>.
\<close>

theorem refresh_keeps_presented_refresh_token:
  assumes "refresh_google_access_token ev cfg now w userid refresh_token = (token, w')"
      and "token \<noteq> JNull"
  shows "\<exists>d record x.
           provider ev (length (posts w)) token_url (refresh_payload cfg refresh_token)
             = Inr (JObj d)
         \<and> files w' (filepath userid) = Some (Json (JObj record))
         \<and> map_of record ''refresh_token'' = Some refresh_token
         \<and> map_of record ''expires_at'' = Some (JInt x)
         \<and> (case map_of d ''expires_in'' of None \<Rightarrow> x = 0 | Some v \<Rightarrow> as_int v = Some (x - now))
         \<and> (\<forall>k. k \<noteq> ''refresh_token'' \<and> k \<noteq> ''expires_at'' \<longrightarrow> map_of record k = map_of d k)
         \<and> token = dict_get record ''access_token''"
proof -
  from refresh_returned [OF assms] obtain d x where
    d: "provider ev (length (posts w)) token_url (refresh_payload cfg refresh_token) = Inr (JObj d)"
    and tok: "map_of d ''access_token'' = Some token"
    and x: "case map_of d ''expires_in'' of None \<Rightarrow> x = 0 | Some v \<Rightarrow> as_int v = Some (x - now)"
    and f: "files w' = (files w)(filepath userid \<mapsto>
                 Json (JObj (AList.update ''expires_at'' (JInt x)
                               (AList.update ''refresh_token'' refresh_token d))))"
    by blast
  let ?saved = "AList.update ''expires_at'' (JInt x) (AList.update ''refresh_token'' refresh_token d)"
  have "files w' (filepath userid) = Some (Json (JObj ?saved))"
    by (simp add: f)
  moreover have "map_of ?saved ''refresh_token'' = Some refresh_token"
    by (simp add: update_conv')
  moreover have "map_of ?saved ''expires_at'' = Some (JInt x)"
    by (simp add: update_conv')
  moreover have "\<forall>k. k \<noteq> ''refresh_token'' \<and> k \<noteq> ''expires_at'' \<longrightarrow> map_of ?saved k = map_of d k"
    by (simp add: update_conv')
  moreover have "token = dict_get ?saved ''access_token''"
    using tok by (simp add: dict_get_def update_conv')
  ultimately show ?thesis
    using d x by blast
qed

theorem refresh_keeps_presented_refresh_token_witness:
  "fst (refresh_google_access_token demo_env demo_cfg 5000 with_record ''u1'' (JStr ''ref''))
     = JStr ''fresh''
   \<and> (\<exists>d record x.
         provider demo_env (length (posts with_record)) token_url
             (refresh_payload demo_cfg (JStr ''ref'')) = Inr (JObj d)
       \<and> files (snd (refresh_google_access_token demo_env demo_cfg 5000 with_record ''u1''
                       (JStr ''ref''))) (filepath ''u1'') = Some (Json (JObj record))
       \<and> map_of record ''refresh_token'' = Some (JStr ''ref'')
       \<and> map_of record ''expires_at'' = Some (JInt x)
       \<and> (case map_of d ''expires_in'' of None \<Rightarrow> x = 0 | Some v \<Rightarrow> as_int v = Some (x - 5000))
       \<and> (\<forall>k. k \<noteq> ''refresh_token'' \<and> k \<noteq> ''expires_at'' \<longrightarrow> map_of record k = map_of d k)
       \<and> fst (refresh_google_access_token demo_env demo_cfg 5000 with_record ''u1'' (JStr ''ref''))
           = dict_get record ''access_token'')"
proof -
  let ?r = "refresh_google_access_token demo_env demo_cfg 5000 with_record ''u1'' (JStr ''ref'')"
  have "case map_of fresh_response ''expires_in'' of
          None \<Rightarrow> (8599 :: int) = 0 | Some v \<Rightarrow> as_int v = Some (8599 - 5000)"
    by (simp add: fresh_response_def)
  moreover have "map_of fresh_response ''access_token'' = Some (JStr ''fresh'')"
    by (simp add: fresh_response_def)
  ultimately have token: "fst ?r = JStr ''fresh''"
    using refresh_succeeds
            [where ev = demo_env and d = fresh_response and a = "JStr ''fresh''"
               and w = with_record and cfg = demo_cfg and refresh_token = "JStr ''ref''"
               and userid = "''u1''" and x = 8599 and now = 5000,
             OF demo_env_answer _ with_record_writable]
    by blast
  then have returned: "fst ?r \<noteq> JNull"
    by simp
  have pair: "?r = (fst ?r, snd ?r)"
    by simp
  show ?thesis
    using refresh_keeps_presented_refresh_token [OF pair returned] token
    by blast
qed

text \<open>
  Claim C2. When the loader finds no record (in particular when the file is not there),
  \<open>get_user_token\<close> returns \<open>None\<close> with no provider call and no write. When the stored
  record is stale (\<open>now \<ge> expires_at - 60\<close>, as always for the sentinel 0 and a clock
  that is not negative), exactly one request goes to the provider: a post to the token
  endpoint whose form holds the client id and secret, the stored refresh token as
  \<open>refresh_token\<close> and \<open>grant_type = refresh_token\<close>. When the provider answers with an object holding
  an access token and the store can be written, that token is returned and the new record
  is in the file; when the request fails, the result is \<open>None\<close>, the file is as before
  and no second request is made. Any result other than \<open>None\<close> is the access token of
  the object the provider answered with.
\<close>

theorem absent_or_stale_record:
  shows "(fst (get_user_google_credentials now w user_id) = Inr None \<longrightarrow>
            fst (get_user_token ev cfg now now' w user_id) = Inr JNull
          \<and> posts (snd (get_user_token ev cfg now now' w user_id)) = posts w
          \<and> files (snd (get_user_token ev cfg now now' w user_id)) = files w)
       \<and> (files w (filepath user_id) = None \<longrightarrow>
            get_user_token ev cfg now now' w user_id = (Inr JNull, w))
       \<and> (files w (filepath user_id) = Some (Json (JObj token_data))
            \<and> truthy (dict_get token_data ''access_token'')
            \<and> dict_get token_data ''expires_at'' = JInt expires_at
            \<and> now \<ge> expires_at - 60 \<longrightarrow>
            posts (snd (get_user_token ev cfg now now' w user_id))
              = posts w @ [(token_url, refresh_payload cfg (dict_get token_data ''refresh_token''))]
          \<and> (provider ev (length (posts w)) token_url
                 (refresh_payload cfg (dict_get token_data ''refresh_token'')) = Inr (JObj d)
               \<and> map_of d ''access_token'' = Some a
               \<and> (case map_of d ''expires_in'' of
                     None \<Rightarrow> x = 0 | Some v \<Rightarrow> as_int v = Some (x - now'))
               \<and> makedirs_ok w \<and> writable w (filepath user_id) \<longrightarrow>
                 fst (get_user_token ev cfg now now' w user_id) = Inr a
               \<and> files (snd (get_user_token ev cfg now now' w user_id)) =
                   (files w)(filepath user_id \<mapsto>
                      Json (JObj (AList.update ''expires_at'' (JInt x)
                                    (AList.update ''refresh_token''
                                       (dict_get token_data ''refresh_token'') d)))))
          \<and> (provider ev (length (posts w)) token_url
                 (refresh_payload cfg (dict_get token_data ''refresh_token'')) = Inl e \<longrightarrow>
                 fst (get_user_token ev cfg now now' w user_id) = Inr JNull
               \<and> files (snd (get_user_token ev cfg now now' w user_id)) = files w)
          \<and> (fst (get_user_token ev cfg now now' w user_id) \<noteq> Inr JNull \<longrightarrow>
                 (\<exists>answer token.
                    provider ev (length (posts w)) token_url
                      (refresh_payload cfg (dict_get token_data ''refresh_token''))
                      = Inr (JObj answer)
                  \<and> map_of answer ''access_token'' = Some token
                  \<and> fst (get_user_token ev cfg now now' w user_id) = Inr token))
          \<and> posts (snd (get_user_token ev cfg now now' w user_id))
              = posts w
                @ [(''https://oauth2.googleapis.com/token'',
                    [(''client_id'',
                      case GOOGLE_CLIENT_ID cfg of None \<Rightarrow> JNull | Some s \<Rightarrow> JStr s),
                     (''client_secret'',
                      case GOOGLE_CLIENT_SECRET cfg of None \<Rightarrow> JNull | Some s \<Rightarrow> JStr s),
                     (''refresh_token'', dict_get token_data ''refresh_token''),
                     (''grant_type'', JStr ''refresh_token'')])])"
proof (intro conjI impI)
  assume none: "fst (get_user_google_credentials now w user_id) = Inr None"
  obtain w1 where c: "get_user_google_credentials now w user_id = (Inr None, w1)"
    using none by (cases "get_user_google_credentials now w user_id") simp
  have t: "get_user_token ev cfg now now' w user_id = (Inr JNull, w1)"
    by (simp add: get_user_token_def c)
  show "fst (get_user_token ev cfg now now' w user_id) = Inr JNull"
    by (simp add: t)
  show "posts (snd (get_user_token ev cfg now now' w user_id)) = posts w"
    using credentials_frame [OF c] by (simp add: t)
  show "files (snd (get_user_token ev cfg now now' w user_id)) = files w"
    using credentials_frame [OF c] by (simp add: t)
next
  assume "files w (filepath user_id) = None"
  then show "get_user_token ev cfg now now' w user_id = (Inr JNull, w)"
    by (simp add: get_user_token_def get_user_google_credentials_def load_token_data_def)
next
  assume stale: "files w (filepath user_id) = Some (Json (JObj token_data))
            \<and> truthy (dict_get token_data ''access_token'')
            \<and> dict_get token_data ''expires_at'' = JInt expires_at
            \<and> now \<ge> expires_at - 60"
  then have t: "get_user_token ev cfg now now' w user_id =
           (Inr (fst (refresh_google_access_token ev cfg now' w user_id
                        (dict_get token_data ''refresh_token''))),
            snd (refresh_google_access_token ev cfg now' w user_id
                   (dict_get token_data ''refresh_token'')))"
    using token_of_stale_record by blast
  show "posts (snd (get_user_token ev cfg now now' w user_id))
              = posts w @ [(token_url, refresh_payload cfg (dict_get token_data ''refresh_token''))]"
    by (simp add: t refresh_posts_once)
  {
    assume ok: "provider ev (length (posts w)) token_url
                 (refresh_payload cfg (dict_get token_data ''refresh_token'')) = Inr (JObj d)
               \<and> map_of d ''access_token'' = Some a
               \<and> (case map_of d ''expires_in'' of
                     None \<Rightarrow> x = 0 | Some v \<Rightarrow> as_int v = Some (x - now'))
               \<and> makedirs_ok w \<and> writable w (filepath user_id)"
    then have r: "fst (refresh_google_access_token ev cfg now' w user_id
                         (dict_get token_data ''refresh_token'')) = a
       \<and> files (snd (refresh_google_access_token ev cfg now' w user_id
                         (dict_get token_data ''refresh_token''))) =
           (files w)(filepath user_id \<mapsto>
              Json (JObj (AList.update ''expires_at'' (JInt x)
                            (AList.update ''refresh_token'' (dict_get token_data ''refresh_token'') d))))"
      using refresh_succeeds [of ev w cfg "dict_get token_data ''refresh_token''" d a user_id x now']
      by blast
    show "fst (get_user_token ev cfg now now' w user_id) = Inr a"
      by (simp add: t r)
    show "files (snd (get_user_token ev cfg now now' w user_id)) =
                   (files w)(filepath user_id \<mapsto>
                      Json (JObj (AList.update ''expires_at'' (JInt x)
                                    (AList.update ''refresh_token''
                                       (dict_get token_data ''refresh_token'') d))))"
      by (simp add: t r)
  }
  {
    assume "provider ev (length (posts w)) token_url
                 (refresh_payload cfg (dict_get token_data ''refresh_token'')) = Inl e"
    from refresh_request_fails [OF this, of now' user_id]
    show "fst (get_user_token ev cfg now now' w user_id) = Inr JNull"
      and "files (snd (get_user_token ev cfg now now' w user_id)) = files w"
      by (simp_all add: t)
  }
  {
    let ?r = "refresh_google_access_token ev cfg now' w user_id
                (dict_get token_data ''refresh_token'')"
    assume "fst (get_user_token ev cfg now now' w user_id) \<noteq> Inr JNull"
    then have returned: "fst ?r \<noteq> JNull"
      by (simp add: t)
    have pair: "?r = (fst ?r, snd ?r)"
      by simp
    from refresh_returned [OF pair returned] obtain answer where
      "provider ev (length (posts w)) token_url
         (refresh_payload cfg (dict_get token_data ''refresh_token'')) = Inr (JObj answer)"
      "map_of answer ''access_token'' = Some (fst ?r)"
      by blast
    then show "\<exists>answer token.
                    provider ev (length (posts w)) token_url
                      (refresh_payload cfg (dict_get token_data ''refresh_token''))
                      = Inr (JObj answer)
                  \<and> map_of answer ''access_token'' = Some token
                  \<and> fst (get_user_token ev cfg now now' w user_id) = Inr token"
      by (auto simp: t)
  }
  show "posts (snd (get_user_token ev cfg now now' w user_id))
              = posts w
                @ [(''https://oauth2.googleapis.com/token'',
                    [(''client_id'',
                      case GOOGLE_CLIENT_ID cfg of None \<Rightarrow> JNull | Some s \<Rightarrow> JStr s),
                     (''client_secret'',
                      case GOOGLE_CLIENT_SECRET cfg of None \<Rightarrow> JNull | Some s \<Rightarrow> JStr s),
                     (''refresh_token'', dict_get token_data ''refresh_token''),
                     (''grant_type'', JStr ''refresh_token'')])]"
    by (simp add: t refresh_posts_once token_url_def refresh_payload_def opt_json_def)
qed

theorem absent_or_stale_record_witness:
  "(posts (snd (get_user_token demo_env demo_cfg 5000 5001 with_record ''u1''))
      = [(''https://oauth2.googleapis.com/token'',
          [(''client_id'', JStr ''id''), (''client_secret'', JStr ''secret''),
           (''refresh_token'', JStr ''ref''), (''grant_type'', JStr ''refresh_token'')])]
     \<and> posts (snd (get_user_token down_env demo_cfg 5000 5001 with_sentinel ''u1''))
      = [(''https://oauth2.googleapis.com/token'',
          [(''client_id'', JStr ''id''), (''client_secret'', JStr ''secret''),
           (''refresh_token'', JStr ''ref''), (''grant_type'', JStr ''refresh_token'')])])
   \<and> files boot (filepath ''u1'') = None
   \<and> get_user_token demo_env demo_cfg 5000 5001 boot ''u1'' = (Inr JNull, boot)
   \<and> files with_record (filepath ''u1'') = Some (Json (JObj stored_record))
   \<and> truthy (dict_get stored_record ''access_token'')
   \<and> dict_get stored_record ''expires_at'' = JInt 4600
   \<and> (5000 :: int) \<ge> 4600 - 60
   \<and> posts (snd (get_user_token demo_env demo_cfg 5000 5001 with_record ''u1''))
       = posts with_record
         @ [(token_url, refresh_payload demo_cfg (dict_get stored_record ''refresh_token''))]
   \<and> fst (get_user_token demo_env demo_cfg 5000 5001 with_record ''u1'') = Inr (JStr ''fresh'')
   \<and> files (snd (get_user_token demo_env demo_cfg 5000 5001 with_record ''u1''))
       = (files with_record)(filepath ''u1'' \<mapsto>
            Json (JObj (AList.update ''expires_at'' (JInt 8600)
                          (AList.update ''refresh_token''
                             (dict_get stored_record ''refresh_token'') fresh_response))))
   \<and> dict_get sentinel_record ''expires_at'' = JInt 0
   \<and> posts (snd (get_user_token down_env demo_cfg 5000 5001 with_sentinel ''u1''))
       = posts with_sentinel
         @ [(token_url, refresh_payload demo_cfg (dict_get sentinel_record ''refresh_token''))]
   \<and> fst (get_user_token down_env demo_cfg 5000 5001 with_sentinel ''u1'') = Inr JNull
   \<and> files (snd (get_user_token down_env demo_cfg 5000 5001 with_sentinel ''u1''))
       = files with_sentinel"
  (is "?form \<and> ?rest")
proof -
  have absent: "files boot (filepath ''u1'') = None"
    by (simp add: boot_def)
  have stale: "files with_record (filepath ''u1'') = Some (Json (JObj stored_record))
            \<and> truthy (dict_get stored_record ''access_token'')
            \<and> dict_get stored_record ''expires_at'' = JInt 4600
            \<and> (5000 :: int) \<ge> 4600 - 60"
    by (simp add: with_record_file stored_record_fields)
  have sentinel: "files with_sentinel (filepath ''u1'') = Some (Json (JObj sentinel_record))
            \<and> truthy (dict_get sentinel_record ''access_token'')
            \<and> dict_get sentinel_record ''expires_at'' = JInt 0
            \<and> (5000 :: int) \<ge> 0 - 60"
    by (simp add: with_sentinel_file sentinel_record_fields)
  have answer: "provider demo_env (length (posts with_record)) token_url
                 (refresh_payload demo_cfg (dict_get stored_record ''refresh_token''))
                = Inr (JObj fresh_response)
               \<and> map_of fresh_response ''access_token'' = Some (JStr ''fresh'')
               \<and> (case map_of fresh_response ''expires_in'' of
                     None \<Rightarrow> (8600 :: int) = 0 | Some v \<Rightarrow> as_int v = Some (8600 - 5001))
               \<and> makedirs_ok with_record \<and> writable with_record (filepath ''u1'')"
    by (simp add: demo_env_answer with_record_writable) (simp add: fresh_response_def)
  have down: "provider down_env (length (posts with_sentinel)) token_url
                 (refresh_payload demo_cfg (dict_get sentinel_record ''refresh_token''))
                = Inl RequestError"
    by (rule down_env_answer)
  note none_case = absent_or_stale_record
            [where w = boot and user_id = "''u1''" and ev = demo_env and cfg = demo_cfg
               and now = 5000 and now' = 5001,
             THEN conjunct2, THEN conjunct1, THEN mp, OF absent]
  note fresh = absent_or_stale_record
            [where w = with_record and user_id = "''u1''" and ev = demo_env and cfg = demo_cfg
               and now = 5000 and now' = 5001 and token_data = stored_record
               and expires_at = 4600 and d = fresh_response and a = "JStr ''fresh''"
               and x = 8600,
             THEN conjunct2, THEN conjunct2, THEN mp, OF stale]
  note failed = absent_or_stale_record
            [where w = with_sentinel and user_id = "''u1''" and ev = down_env and cfg = demo_cfg
               and now = 5000 and now' = 5001 and token_data = sentinel_record
               and expires_at = 0 and e = RequestError,
             THEN conjunct2, THEN conjunct2, THEN mp, OF sentinel]
  note fresh_once = fresh [THEN conjunct1]
  note fresh_done = fresh [THEN conjunct2, THEN conjunct1, THEN mp, OF answer]
  note fresh_form = fresh [THEN conjunct2, THEN conjunct2, THEN conjunct2, THEN conjunct2]
  note failed_once = failed [THEN conjunct1]
  note failed_none = failed [THEN conjunct2, THEN conjunct2, THEN conjunct1, THEN mp, OF down]
  note failed_form = failed [THEN conjunct2, THEN conjunct2, THEN conjunct2, THEN conjunct2]
  have no_posts: "posts with_record = []" "posts with_sentinel = []"
    by (simp_all add: with_record_def with_sentinel_def boot_def)
  have settings: "GOOGLE_CLIENT_ID demo_cfg = Some ''id''"
    "GOOGLE_CLIENT_SECRET demo_cfg = Some ''secret''"
    by (simp_all add: demo_cfg_def)
  have form1:
    "posts (snd (get_user_token demo_env demo_cfg 5000 5001 with_record ''u1''))
      = [(''https://oauth2.googleapis.com/token'',
          [(''client_id'', JStr ''id''), (''client_secret'', JStr ''secret''),
           (''refresh_token'', JStr ''ref''), (''grant_type'', JStr ''refresh_token'')])]"
    using fresh_form by (simp add: no_posts settings stored_record_fields)
  have form2:
    "posts (snd (get_user_token down_env demo_cfg 5000 5001 with_sentinel ''u1''))
      = [(''https://oauth2.googleapis.com/token'',
          [(''client_id'', JStr ''id''), (''client_secret'', JStr ''secret''),
           (''refresh_token'', JStr ''ref''), (''grant_type'', JStr ''refresh_token'')])]"
    using failed_form by (simp add: no_posts settings sentinel_record_fields)
  have ?rest
    using absent none_case stale fresh_once fresh_done sentinel failed_once failed_none
    by blast
  with form1 form2 show ?thesis
    by blast
qed

section \<open>The request gate\<close>

lemma startswith_append: "startswith s (a @ b) \<Longrightarrow> startswith s a"
proof -
  assume "startswith s (a @ b)"
  then have "take (length a + length b) s = a @ b"
    by (simp add: startswith_def)
  then have "take (length a) (take (length a + length b) s) = take (length a) (a @ b)"
    by simp
  then show ?thesis
    by (simp add: startswith_def min_def)
qed

lemma callback_is_auth: "startswith p ''/auth/google/callback'' \<Longrightarrow> startswith p ''/auth''"
  using startswith_append [of p "''/auth''" "''/google/callback''"] by simp


lemma lower_Authorization: "lower ''Authorization'' = ''authorization''"
  by code_simp





lemma protected_request_fields:
  "scope_type (protected_request hs) = ''http''"
  "\<not> startswith (case path (protected_request hs) of None \<Rightarrow> ''/'' | Some p \<Rightarrow> p) ''/auth''"
  "headers (protected_request hs) = hs"
  by (simp_all add: protected_request_def startswith_def)

text \<open>The query of a well-formed authorization link.\<close>

lemma parse_query_link:
  "parse_query ''userid=u1&token=ab'' ''userid'' = Some ''u1''"
  "parse_query ''userid=u1&token=ab'' ''token'' = Some ''ab''"
  "parse_query ''token=ab'' ''userid'' = None"
  "parse_query ''token=ab'' ''token'' = Some ''ab''"
  by (simp_all add: parse_query_def add_query_item_def)

lemma u1_ticket_tickets:
  "temp_user_oauth_token u1_ticket ''u1'' = Some ''ab''"
  "temp_user_oauth_token u1_ticket ''u2'' = None"
  by (simp_all add: u1_ticket_def issue_tickets boot_def hex_def hex_digit_def)

lemma auth_request_fields:
  "scope_type (auth_request qs) = ''http''"
  "startswith (case path (auth_request qs) of None \<Rightarrow> ''/'' | Some p \<Rightarrow> p) ''/auth''
   \<and> \<not> startswith (case path (auth_request qs) of None \<Rightarrow> ''/'' | Some p \<Rightarrow> p)
         ''/auth/google/callback''"
  "query_string (auth_request qs) = qs"
  by (simp_all add: auth_request_def startswith_def)

lemma callback_request_fields:
  "scope_type (callback_request qs) = ''http''"
  "startswith (case path (callback_request qs) of None \<Rightarrow> ''/'' | Some p \<Rightarrow> p)
     ''/auth/google/callback''"
  by (simp_all add: callback_request_def startswith_def)

lemma parse_query_others:
  "parse_query ''userid=u1&token=zz'' ''userid'' = Some ''u1''"
  "parse_query ''userid=u1&token=zz'' ''token'' = Some ''zz''"
  "parse_query ''userid=u2&token=ab'' ''userid'' = Some ''u2''"
  "parse_query ''userid=u1'' ''token'' = None"
  by (simp_all add: parse_query_def add_query_item_def)




text \<open>
  What the gate does on the paths that start with \<open>/auth\<close>, for an HTTP request: a path
  that starts with the callback path is passed to the app untouched. Otherwise the gate
  looks the ticket up for the \<open>userid\<close> of the query, taking the empty user id when the
  query has none, and calls the app exactly when the query has a \<open>token\<close> that
  \<open>match_user_auth_token\<close> accepts for that user; in every other case it answers 401
  without calling the app.
\<close>

lemma ticket_gate:
  assumes "scope_type sc = ''http''"
  shows "(startswith (case path sc of None \<Rightarrow> ''/'' | Some p \<Rightarrow> p) ''/auth/google/callback'' \<longrightarrow>
            AuthenticationMiddleware_call cfg w sc = CallApp sc)
       \<and> (startswith (case path sc of None \<Rightarrow> ''/'' | Some p \<Rightarrow> p) ''/auth''
            \<and> \<not> startswith (case path sc of None \<Rightarrow> ''/'' | Some p \<Rightarrow> p) ''/auth/google/callback'' \<longrightarrow>
            (AuthenticationMiddleware_call cfg w sc = CallApp sc \<longleftrightarrow>
               (\<exists>token. parse_query (query_string sc) ''token'' = Some token
                  \<and> match_user_auth_token w
                       (case parse_query (query_string sc) ''userid'' of None \<Rightarrow> [] | Some u \<Rightarrow> u)
                       token))
          \<and> (AuthenticationMiddleware_call cfg w sc \<noteq> CallApp sc \<longrightarrow>
               AuthenticationMiddleware_call cfg w sc
                 = Respond (PlainTextResponse ''Unauthorized'' 401))
          \<and> (parse_query (query_string sc) ''token'' = None \<longrightarrow>
               AuthenticationMiddleware_call cfg w sc
                 = Respond (PlainTextResponse ''Unauthorized'' 401))
          \<and> (parse_query (query_string sc) ''userid'' = Some user_id
               \<and> temp_user_oauth_token w user_id = None \<longrightarrow>
               AuthenticationMiddleware_call cfg w sc
                 = Respond (PlainTextResponse ''Unauthorized'' 401))
          \<and> (parse_query (query_string sc) ''userid'' = Some user_id
               \<and> temp_user_oauth_token w user_id = Some ticket
               \<and> parse_query (query_string sc) ''token'' \<noteq> Some ticket \<longrightarrow>
               AuthenticationMiddleware_call cfg w sc
                 = Respond (PlainTextResponse ''Unauthorized'' 401))
          \<and> (parse_query (query_string sc) ''userid'' = None
               \<and> (temp_user_oauth_token w [] = None
                    \<or> parse_query (query_string sc) ''token'' \<noteq> temp_user_oauth_token w []) \<longrightarrow>
               AuthenticationMiddleware_call cfg w sc
                 = Respond (PlainTextResponse ''Unauthorized'' 401)))"
proof -
  let ?p = "case path sc of None \<Rightarrow> ''/'' | Some p \<Rightarrow> p"
  let ?qp = "parse_query (query_string sc)"
  let ?uid = "case ?qp ''userid'' of None \<Rightarrow> [] | Some u \<Rightarrow> u"
  have callback: "AuthenticationMiddleware_call cfg w sc = CallApp sc"
    if "startswith ?p ''/auth/google/callback''"
    using assms that by (simp add: AuthenticationMiddleware_call_def)
  have gate: "AuthenticationMiddleware_call cfg w sc =
      (if temp_user_oauth_token w ?uid = None \<or> ?qp ''token'' \<noteq> temp_user_oauth_token w ?uid
       then Respond (PlainTextResponse ''Unauthorized'' 401) else CallApp sc)"
    if "startswith ?p ''/auth'' \<and> \<not> startswith ?p ''/auth/google/callback''"
    using assms that by (simp add: AuthenticationMiddleware_call_def Let_def unauthorized_def)
  have auth: "(AuthenticationMiddleware_call cfg w sc = CallApp sc \<longleftrightarrow>
               (\<exists>token. ?qp ''token'' = Some token \<and> match_user_auth_token w ?uid token))
          \<and> (AuthenticationMiddleware_call cfg w sc \<noteq> CallApp sc \<longrightarrow>
               AuthenticationMiddleware_call cfg w sc
                 = Respond (PlainTextResponse ''Unauthorized'' 401))
          \<and> (?qp ''token'' = None \<longrightarrow>
               AuthenticationMiddleware_call cfg w sc
                 = Respond (PlainTextResponse ''Unauthorized'' 401))
          \<and> (?qp ''userid'' = Some user_id \<and> temp_user_oauth_token w user_id = None \<longrightarrow>
               AuthenticationMiddleware_call cfg w sc
                 = Respond (PlainTextResponse ''Unauthorized'' 401))
          \<and> (?qp ''userid'' = Some user_id \<and> temp_user_oauth_token w user_id = Some ticket
               \<and> ?qp ''token'' \<noteq> Some ticket \<longrightarrow>
               AuthenticationMiddleware_call cfg w sc
                 = Respond (PlainTextResponse ''Unauthorized'' 401))
          \<and> (?qp ''userid'' = None
               \<and> (temp_user_oauth_token w [] = None
                    \<or> ?qp ''token'' \<noteq> temp_user_oauth_token w []) \<longrightarrow>
               AuthenticationMiddleware_call cfg w sc
                 = Respond (PlainTextResponse ''Unauthorized'' 401))"
    if "startswith ?p ''/auth'' \<and> \<not> startswith ?p ''/auth/google/callback''"
    by (auto simp: gate [OF that] match_user_auth_token_def split: option.splits)
  show ?thesis
    using callback auth by blast
qed

lemma ticket_gate_examples:
  "temp_user_oauth_token u1_ticket ''u1'' = Some ''ab''
   \<and> AuthenticationMiddleware_call demo_cfg u1_ticket (callback_request ''code=c&state=s'')
       = CallApp (callback_request ''code=c&state=s'')
   \<and> parse_query ''userid=u1&token=ab'' ''userid'' = Some ''u1''
   \<and> parse_query ''userid=u1&token=ab'' ''token'' = Some ''ab''
   \<and> match_user_auth_token u1_ticket ''u1'' ''ab''
   \<and> AuthenticationMiddleware_call demo_cfg u1_ticket (auth_request ''userid=u1&token=ab'')
       = CallApp (auth_request ''userid=u1&token=ab'')
   \<and> AuthenticationMiddleware_call demo_cfg u1_ticket (auth_request ''userid=u1&token=zz'')
       = Respond (PlainTextResponse ''Unauthorized'' 401)
   \<and> AuthenticationMiddleware_call demo_cfg u1_ticket (auth_request ''userid=u2&token=ab'')
       = Respond (PlainTextResponse ''Unauthorized'' 401)
   \<and> AuthenticationMiddleware_call demo_cfg u1_ticket (auth_request ''userid=u1'')
       = Respond (PlainTextResponse ''Unauthorized'' 401)
   \<and> temp_user_oauth_token u1_ticket [] = None
   \<and> AuthenticationMiddleware_call demo_cfg u1_ticket (auth_request ''token=ab'')
       = Respond (PlainTextResponse ''Unauthorized'' 401)"
proof -
  note gate = ticket_gate [OF auth_request_fields(1), where cfg = demo_cfg and w = u1_ticket,
                unfolded auth_request_fields(3)]
  have no_empty: "temp_user_oauth_token u1_ticket [] = None"
    by (simp add: u1_ticket_def issue_tickets boot_def)
  have matches: "match_user_auth_token u1_ticket ''u1'' ''ab''"
    by (simp add: match_user_auth_token_def u1_ticket_tickets)
  have callback: "AuthenticationMiddleware_call demo_cfg u1_ticket (callback_request ''code=c&state=s'')
       = CallApp (callback_request ''code=c&state=s'')"
    using ticket_gate [OF callback_request_fields(1), of "''code=c&state=s''" demo_cfg u1_ticket]
          callback_request_fields(2)
    by blast
  have "\<exists>token. parse_query ''userid=u1&token=ab'' ''token'' = Some token
          \<and> match_user_auth_token u1_ticket
                (case parse_query ''userid=u1&token=ab'' ''userid'' of None \<Rightarrow> [] | Some u \<Rightarrow> u)
                token"
    using matches by (simp add: parse_query_link)
  then have pass: "AuthenticationMiddleware_call demo_cfg u1_ticket (auth_request ''userid=u1&token=ab'')
       = CallApp (auth_request ''userid=u1&token=ab'')"
    using gate [of "''userid=u1&token=ab''"] auth_request_fields(2) by blast
  have "parse_query ''userid=u1&token=zz'' ''token'' \<noteq> Some ''ab''"
    by (simp add: parse_query_others)
  then have differs: "AuthenticationMiddleware_call demo_cfg u1_ticket (auth_request ''userid=u1&token=zz'')
       = Respond (PlainTextResponse ''Unauthorized'' 401)"
    using gate [of "''userid=u1&token=zz''" "''u1''" "''ab''"] auth_request_fields(2)
          parse_query_others(1) u1_ticket_tickets(1)
    by blast
  have no_ticket: "AuthenticationMiddleware_call demo_cfg u1_ticket (auth_request ''userid=u2&token=ab'')
       = Respond (PlainTextResponse ''Unauthorized'' 401)"
    using gate [of "''userid=u2&token=ab''" "''u2''"] auth_request_fields(2)
          parse_query_others(3) u1_ticket_tickets(2)
    by blast
  have no_token: "AuthenticationMiddleware_call demo_cfg u1_ticket (auth_request ''userid=u1'')
       = Respond (PlainTextResponse ''Unauthorized'' 401)"
    using gate [of "''userid=u1''"] auth_request_fields(2) parse_query_others(4)
    by blast
  have no_userid: "AuthenticationMiddleware_call demo_cfg u1_ticket (auth_request ''token=ab'')
       = Respond (PlainTextResponse ''Unauthorized'' 401)"
    using gate [of "''token=ab''"] auth_request_fields(2) parse_query_link(3) no_empty
    by blast
  show ?thesis
    by (intro conjI u1_ticket_tickets(1) callback parse_query_link(1) parse_query_link(2)
          matches pass differs no_ticket no_token no_empty no_userid)
qed

text \<open>
  Claim C3. The gate is to answer 401, without calling the app, whenever \<open>userid\<close> is
  missing from the query of a request to \<open>/auth\<close>. The code misses this case: once a
  ticket has been issued for the empty user id, the request \<open>/auth?token=ab\<close>, which has
  no \<open>userid\<close> and carries that ticket as \<open>token\<close>, is passed to the app. In the same
  branch a missing \<open>token\<close> is always refused, and the route behind the gate refuses the
  request because its \<open>userid\<close> is missing.
\<close>

theorem missing_userid_passes_gate:
  "parse_query (query_string (auth_request ''token=ab'')) ''userid'' = None
   \<and> scope_type (auth_request ''token=ab'') = ''http''
   \<and> path (auth_request ''token=ab'') = Some ''/auth''
   \<and> fst (gen_user_auth_token boot [] [0xab]) = ''ab''
   \<and> AuthenticationMiddleware_call demo_cfg (snd (gen_user_auth_token boot [] [0xab]))
        (auth_request ''token=ab'')
       = CallApp (auth_request ''token=ab'')
   \<and> auth demo_env demo_cfg (snd (gen_user_auth_token boot [] [0xab])) [''token'' \<mapsto> ''ab'']
        [0x01]
       = (PlainTextResponse ''Unauthorized'' 401, snd (gen_user_auth_token boot [] [0xab]))"
proof -
  have issued: "gen_user_auth_token boot [] [0xab] = (''ab'', empty_user_ticket)"
    by (simp add: empty_user_ticket_def gen_user_auth_token_def hex_def hex_digit_def Let_def)
  have ticket: "temp_user_oauth_token empty_user_ticket [] = Some ''ab''"
    by (simp add: empty_user_ticket_def issue_tickets hex_def hex_digit_def)
  have passed: "AuthenticationMiddleware_call demo_cfg empty_user_ticket (auth_request ''token=ab'')
                  = CallApp (auth_request ''token=ab'')"
    using parse_query_link(3,4) ticket
    by (simp add: AuthenticationMiddleware_call_def auth_request_def startswith_def)
  have refused: "auth demo_env demo_cfg empty_user_ticket [''token'' \<mapsto> ''ab''] [0x01]
                   = (PlainTextResponse ''Unauthorized'' 401, empty_user_ticket)"
    by (simp add: auth_def)
  show ?thesis
    using passed refused parse_query_link(3)
    by (simp add: issued auth_request_def)
qed

section \<open>Missing configuration\<close>

text \<open>
  Claim C9, as the code has it. Reading the configuration never fails: whatever the
  environment holds, the service starts with each constant equal to its variable, \<open>None\<close>
  when the variable is not set. What is missing shows when requests are served: without
  the service secret every HTTP request to a path outside \<open>/auth\<close> is answered 401;
  without the base URL the redirect URI is built from the text \<open>None\<close>; without the
  client id or secret the provider requests carry \<open>None\<close> in their place.
\<close>

theorem startup_never_fails:
  "(\<exists>c. startup environ = Inr c)
   \<and> (startup environ = Inr cfg \<longrightarrow>
       BEARER_TOKEN cfg = environ ''AUTH_TOKEN''
     \<and> SERVER_DOMAIN cfg = environ ''SERVER_DOMAIN''
     \<and> GOOGLE_CLIENT_ID cfg = environ ''GOOGLE_CLIENT_ID''
     \<and> GOOGLE_CLIENT_SECRET cfg = environ ''GOOGLE_CLIENT_SECRET''
     \<and> (environ ''AUTH_TOKEN'' = None \<and> scope_type sc = ''http''
          \<and> \<not> startswith (case path sc of None \<Rightarrow> ''/'' | Some p \<Rightarrow> p) ''/auth'' \<longrightarrow>
          (\<exists>body. AuthenticationMiddleware_call cfg w sc = Respond (PlainTextResponse body 401)))
     \<and> (environ ''SERVER_DOMAIN'' = None \<longrightarrow>
          GOOGLE_REDIRECT_URI cfg = ''None/auth/google/callback'')
     \<and> (environ ''GOOGLE_CLIENT_ID'' = None \<longrightarrow>
          map_of (refresh_payload cfg refresh_token) ''client_id'' = Some JNull
          \<and> map_of (exchange_payload cfg code) ''client_id'' = Some JNull)
     \<and> (environ ''GOOGLE_CLIENT_SECRET'' = None \<longrightarrow>
          map_of (refresh_payload cfg refresh_token) ''client_secret'' = Some JNull
          \<and> map_of (exchange_payload cfg code) ''client_secret'' = Some JNull))"
  (is "?starts \<and> (?started \<longrightarrow> ?running)")
proof (rule conjI)
  show ?starts
    by (simp add: startup_def)
next
  have ?running if ?started
  proof -
    from that have cfg: "cfg = \<lparr>BEARER_TOKEN = environ ''AUTH_TOKEN'',
          SERVER_DOMAIN = environ ''SERVER_DOMAIN'',
          GOOGLE_CLIENT_ID = environ ''GOOGLE_CLIENT_ID'',
          GOOGLE_CLIENT_SECRET = environ ''GOOGLE_CLIENT_SECRET''\<rparr>"
    by (simp add: startup_def)
  have rejected: "\<exists>body. AuthenticationMiddleware_call cfg w sc = Respond (PlainTextResponse body 401)"
    if "environ ''AUTH_TOKEN'' = None" "scope_type sc = ''http''"
       "\<not> startswith (case path sc of None \<Rightarrow> ''/'' | Some p \<Rightarrow> p) ''/auth''"
  proof -
    have "\<not> startswith (case path sc of None \<Rightarrow> ''/'' | Some p \<Rightarrow> p) ''/auth/google/callback''"
      using that(3) callback_is_auth by blast
    then show ?thesis
      using that
      by (simp add: cfg AuthenticationMiddleware_call_def Let_def unauthorized_def
               split: option.split)
  qed
  have uri: "GOOGLE_REDIRECT_URI cfg = ''None/auth/google/callback''"
    if "environ ''SERVER_DOMAIN'' = None"
    using that by (simp add: cfg GOOGLE_REDIRECT_URI_def format_opt_def)
  have client_id: "map_of (refresh_payload cfg refresh_token) ''client_id'' = Some JNull
          \<and> map_of (exchange_payload cfg code) ''client_id'' = Some JNull"
    if "environ ''GOOGLE_CLIENT_ID'' = None"
    using that by (simp add: cfg refresh_payload_def exchange_payload_def opt_json_def)
  have client_secret: "map_of (refresh_payload cfg refresh_token) ''client_secret'' = Some JNull
          \<and> map_of (exchange_payload cfg code) ''client_secret'' = Some JNull"
    if "environ ''GOOGLE_CLIENT_SECRET'' = None"
    using that by (simp add: cfg refresh_payload_def exchange_payload_def opt_json_def)
  show ?thesis
    using rejected uri client_id client_secret by (simp add: cfg)
  qed
  then show "?started \<longrightarrow> ?running"
    by blast
qed

theorem startup_never_fails_witness:
  "[''SERVER_DOMAIN'' \<mapsto> ''http://localhost:30000''] ''AUTH_TOKEN'' = None
   \<and> [''SERVER_DOMAIN'' \<mapsto> ''http://localhost:30000''] ''GOOGLE_CLIENT_ID'' = None
   \<and> startup [''SERVER_DOMAIN'' \<mapsto> ''http://localhost:30000''] = Inr domain_only
   \<and> scope_type (protected_request [(''Authorization'', ''Bearer s3cret'')]) = ''http''
   \<and> (\<exists>body. AuthenticationMiddleware_call domain_only boot
                 (protected_request [(''Authorization'', ''Bearer s3cret'')])
               = Respond (PlainTextResponse body 401))
   \<and> map_of (refresh_payload domain_only (JStr ''ref'')) ''client_id'' = Some JNull"
proof -
  let ?environ = "[''SERVER_DOMAIN'' \<mapsto> ''http://localhost:30000'']"
  have missing: "?environ ''AUTH_TOKEN'' = None" "?environ ''GOOGLE_CLIENT_ID'' = None"
    by simp_all
  have started: "startup ?environ = Inr domain_only"
    by (simp add: startup_def domain_only_def)
  note claim = startup_never_fails
         [where environ = ?environ and cfg = domain_only and w = boot
            and sc = "protected_request [(''Authorization'', ''Bearer s3cret'')]"
            and refresh_token = "JStr ''ref''", THEN conjunct2, rule_format, OF started]
  have rejected: "\<exists>body. AuthenticationMiddleware_call domain_only boot
                 (protected_request [(''Authorization'', ''Bearer s3cret'')])
               = Respond (PlainTextResponse body 401)"
    using claim missing(1) protected_request_fields(1,2) by blast
  have payload: "map_of (refresh_payload domain_only (JStr ''ref'')) ''client_id'' = Some JNull"
    using claim missing(2) by blast
  show ?thesis
    by (intro conjI missing started protected_request_fields(1) rejected payload)
qed

text \<open>
  Claim C9 as the specification words it (a missing value stops the start) fails: with an
  empty environment the start succeeds, and a tool request is then answered 401.
\<close>

theorem fail_fast_counterexample:
  "startup Map.empty = Inr unset
   \<and> AuthenticationMiddleware_call unset boot
        (protected_request [(''Authorization'', ''Bearer s3cret'')])
       = Respond (PlainTextResponse ''Unauthorized'' 401)
   \<and> GOOGLE_REDIRECT_URI unset = ''None/auth/google/callback''"
proof -
  have "header_dict [(''Authorization'', ''Bearer s3cret'')] ''authorization'' = Some ''Bearer s3cret''"
    using lower_Authorization by (simp add: header_dict_def)
  then show ?thesis
    by (simp add: startup_def unset_def AuthenticationMiddleware_call_def protected_request_def
          startswith_def unauthorized_def GOOGLE_REDIRECT_URI_def format_opt_def)
qed

end
